theory Spec2Isabelle
  imports Complex_Main "HOL-Library.Log_Nat"
begin

section \<open>Numbers of the source language\<close>

text \<open>
  A TypeScript \<open>number\<close> is an IEEE 754 binary64 value. A finite value is carried as the
  rational it denotes, \<open>Fin 0\<close> being the zero \<open>+0\<close>; the negative zero \<open>-0\<close>, the two
  infinities and \<open>NaN\<close> are constructors of their own.
\<close>

datatype jsnum = NaN | PInf | NInf | Fin rat | NegZero

text \<open>Powers of two with an integer exponent.\<close>

definition pow2 :: "int \<Rightarrow> rat" where
  "pow2 e = (if 0 \<le> e then 2 ^ nat e else 1 / 2 ^ nat (- e))"

text \<open>
  The binade of a positive rational \<open>a\<close>: the integer \<open>e\<close> with \<open>2^e \<le> a < 2^(e+1)\<close>,
  found from the numbers of binary digits (\<open>bitlen\<close>) of numerator and denominator.
\<close>

definition binade :: "rat \<Rightarrow> int" where
  "binade a =
     (let (n, d) = quotient_of a;
          e0 = bitlen n - bitlen d
      in if pow2 e0 \<le> a then e0 else e0 - 1)"

text \<open>Rounding a non-negative rational to the nearest integer, ties to the even one.\<close>

definition round_half_even :: "rat \<Rightarrow> int" where
  "round_half_even x =
     (let f = \<lfloor>x\<rfloor>; r = x - of_int f
      in if r < 1 / 2 then f
         else if 1 / 2 < r then f + 1
         else if even f then f else f + 1)"

text \<open>
  \<open>fl\<close> is the rounding every arithmetic operation of the language ends with: to the
  nearest binary64 value, ties to even, with 53 significant bits, the smallest exponent
  \<open>-1022\<close> (below it the spacing stays \<open>2^-1074\<close>) and overflow to an infinity. A
  negative value that rounds to zero gives \<open>-0\<close>. The sign of an exact zero depends on
  the operation, which sets it itself; \<open>fl 0\<close> is \<open>+0\<close>.
\<close>

definition fl :: "rat \<Rightarrow> jsnum" where
  "fl x =
     (if x = 0 then Fin 0
      else
        let a = \<bar>x\<bar>;
            e = max (binade a) (- 1022);
            q = pow2 (e - 52);
            y = of_int (round_half_even (a / q)) * q
        in if pow2 1024 \<le> y then (if 0 < x then PInf else NInf)
           else if 0 < x then Fin y
           else if y = 0 then NegZero else Fin (- y))"

text \<open>A rational is a binary64 value when rounding leaves it as it is.\<close>

definition is_double :: "rat \<Rightarrow> bool" where
  "is_double r \<longleftrightarrow> fl r = Fin r"

text \<open>The values a variable of type \<open>number\<close> can hold.\<close>

fun is_number :: "jsnum \<Rightarrow> bool" where
  "is_number (Fin r) = is_double r"
| "is_number _ = True"

subsection \<open>Arithmetic and comparison operators\<close>

text \<open>The sign bit of a number, and the value of a finite one.\<close>

fun is_neg :: "jsnum \<Rightarrow> bool" where
  "is_neg NaN = False"
| "is_neg PInf = False"
| "is_neg NInf = True"
| "is_neg (Fin r) = (r < 0)"
| "is_neg NegZero = True"

fun finite_of :: "jsnum \<Rightarrow> rat option" where
  "finite_of (Fin r) = Some r"
| "finite_of NegZero = Some 0"
| "finite_of _ = None"

definition signed_zero :: "bool \<Rightarrow> jsnum" where
  "signed_zero negative = (if negative then NegZero else Fin 0)"

definition signed_inf :: "bool \<Rightarrow> jsnum" where
  "signed_inf negative = (if negative then NInf else PInf)"

fun jneg :: "jsnum \<Rightarrow> jsnum" where
  "jneg NaN = NaN"
| "jneg PInf = NInf"
| "jneg NInf = PInf"
| "jneg (Fin r) = (if r = 0 then NegZero else Fin (- r))"
| "jneg NegZero = Fin 0"

text \<open>
  \<open>x * y\<close>: the sign of the result is the exclusive or of the signs, also for a zero; an
  infinity times a zero is \<open>NaN\<close>.
\<close>

definition jmul :: "jsnum \<Rightarrow> jsnum \<Rightarrow> jsnum" where
  "jmul x y =
     (if x = NaN \<or> y = NaN then NaN
      else case (finite_of x, finite_of y) of
        (Some a, Some b) \<Rightarrow>
          if a * b = 0 then signed_zero (is_neg x \<noteq> is_neg y) else fl (a * b)
      | (Some a, None) \<Rightarrow> if a = 0 then NaN else signed_inf (is_neg x \<noteq> is_neg y)
      | (None, Some b) \<Rightarrow> if b = 0 then NaN else signed_inf (is_neg x \<noteq> is_neg y)
      | (None, None) \<Rightarrow> signed_inf (is_neg x \<noteq> is_neg y))"

text \<open>
  \<open>x + y\<close>: an exact zero sum is \<open>+0\<close>, unless both operands are \<open>-0\<close>; the sum of the two
  opposite infinities is \<open>NaN\<close>.
\<close>

definition jadd :: "jsnum \<Rightarrow> jsnum \<Rightarrow> jsnum" where
  "jadd x y =
     (if x = NaN \<or> y = NaN then NaN
      else case (finite_of x, finite_of y) of
        (Some a, Some b) \<Rightarrow>
          if a + b = 0 then (if x = NegZero \<and> y = NegZero then NegZero else Fin 0)
          else fl (a + b)
      | (Some a, None) \<Rightarrow> y
      | (None, Some b) \<Rightarrow> x
      | (None, None) \<Rightarrow> if x = y then x else NaN)"

text \<open>\<open>x - y\<close> is \<open>x + (-y)\<close>.\<close>

definition jsub :: "jsnum \<Rightarrow> jsnum \<Rightarrow> jsnum" where
  "jsub x y = jadd x (jneg y)"

text \<open>
  \<open>x / y\<close>: the sign of the result is the exclusive or of the signs; a non-zero value
  over a zero is an infinity, a zero over a zero and an infinity over an infinity are
  \<open>NaN\<close>.
\<close>

definition jdiv :: "jsnum \<Rightarrow> jsnum \<Rightarrow> jsnum" where
  "jdiv x y =
     (if x = NaN \<or> y = NaN then NaN
      else case (finite_of x, finite_of y) of
        (Some a, Some b) \<Rightarrow>
          if b = 0 then (if a = 0 then NaN else signed_inf (is_neg x \<noteq> is_neg y))
          else if a = 0 then signed_zero (is_neg x \<noteq> is_neg y)
          else fl (a / b)
      | (Some a, None) \<Rightarrow> signed_zero (is_neg x \<noteq> is_neg y)
      | (None, Some b) \<Rightarrow> signed_inf (is_neg x \<noteq> is_neg y)
      | (None, None) \<Rightarrow> NaN)"

text \<open>
  \<open>x <= y\<close> and \<open>x >= y\<close>: false as soon as an operand is \<open>NaN\<close>; the two zeros are
  equal.
\<close>

fun jle :: "jsnum \<Rightarrow> jsnum \<Rightarrow> bool" where
  "jle NaN _ = False"
| "jle _ NaN = False"
| "jle NInf _ = True"
| "jle _ PInf = True"
| "jle (Fin a) (Fin b) = (a \<le> b)"
| "jle (Fin a) NegZero = (a \<le> 0)"
| "jle NegZero (Fin b) = (0 \<le> b)"
| "jle NegZero NegZero = True"
| "jle _ _ = False"

definition jge :: "jsnum \<Rightarrow> jsnum \<Rightarrow> bool" where
  "jge x y = jle y x"

text \<open>
  \<open>Math.min\<close> and \<open>Math.max\<close> of two arguments, for which \<open>-0\<close> is smaller than \<open>+0\<close>, and
  the global \<open>isNaN\<close> on a number.
\<close>

definition Math_min :: "jsnum \<Rightarrow> jsnum \<Rightarrow> jsnum" where
  "Math_min x y =
     (if x = NaN \<or> y = NaN then NaN
      else if jle x y \<and> jle y x then (if is_neg x then x else y)
      else if jle x y then x else y)"

definition Math_max :: "jsnum \<Rightarrow> jsnum \<Rightarrow> jsnum" where
  "Math_max x y =
     (if x = NaN \<or> y = NaN then NaN
      else if jle x y \<and> jle y x then (if is_neg x then y else x)
      else if jle x y then y else x)"

definition isNaN :: "jsnum \<Rightarrow> bool" where
  "isNaN x \<longleftrightarrow> x = NaN"

section \<open>Rewards: \<open>features/rewards\<close>\<close>

text \<open>
  The platform functions the helpers call are parameters of the model:
  \<open>parseFloat\<close> (a string to a number, \<open>NaN\<close> when no number starts the string),
  \<open>Date_time\<close> (the time value in milliseconds of \<open>new Date(s)\<close>, \<open>None\<close> for an
  Invalid Date, whose time value is \<open>NaN\<close>) and \<open>now\<close> (the time value of \<open>new Date()\<close>).
\<close>

type_synonym parse_float = "string \<Rightarrow> jsnum"
type_synonym date_time = "string \<Rightarrow> int option"

text \<open>A value of type \<open>number | string\<close>.\<close>

datatype num_or_str = JNum jsnum | JStr string

text \<open>
  Modelled from the spec: the declarations of \<open>Reward\<close>, \<open>RewardStatus\<close>, \<open>RewardConfig\<close>
  and \<open>RewardEligibilityResponse\<close> (\<open>features/rewards/types\<close> and \<open>api/rewardsApi\<close>),
  which the helpers import: the three reward states, and of each record the fields that
  the functions below read.
\<close>

datatype RewardStatus = PENDING | APPLIED | EXPIRED_REWARD

record Reward =
  reward_id :: string
  reward_status :: RewardStatus
  reward_discount_percentage :: num_or_str
  expires_at :: "string option"

record RewardConfig =
  attendance_threshold :: jsnum
  discount_percentage :: jsnum
  expiration_days :: jsnum
  eligible_plan_units :: "string list"

record RewardEligibilityResponse =
  eligible :: bool
  attendance_count :: jsnum

subsection \<open>\<open>constants/rewardConstants.ts\<close>\<close>

definition ATTENDANCE_THRESHOLD :: jsnum where
  "ATTENDANCE_THRESHOLD = Fin 20"

definition ELIGIBLE_PLAN_UNITS :: "string list" where
  "ELIGIBLE_PLAN_UNITS = [''month'']"

subsection \<open>\<open>utils/rewardHelpers.ts\<close>\<close>

text \<open>
  \<open>a < b\<close> and \<open>a <= b\<close> on two \<open>Date\<close> objects compare their time values, and are false
  when either is an Invalid Date.
\<close>

fun date_lt :: "int option \<Rightarrow> int option \<Rightarrow> bool" where
  "date_lt (Some a) (Some b) = (a < b)"
| "date_lt _ _ = False"

fun date_le :: "int option \<Rightarrow> int option \<Rightarrow> bool" where
  "date_le (Some a) (Some b) = (a \<le> b)"
| "date_le _ _ = False"

text \<open>\<open>!reward.expires_at\<close> holds for a missing field and for the empty string.\<close>

definition isRewardExpired :: "date_time \<Rightarrow> int \<Rightarrow> Reward \<Rightarrow> bool" where
  "isRewardExpired Date_time now reward =
     (case expires_at reward of
        None \<Rightarrow> False
      | Some e \<Rightarrow> if e = [] then False else date_lt (Date_time e) (Some now))"

definition isRewardAvailable :: "date_time \<Rightarrow> int \<Rightarrow> Reward \<Rightarrow> bool" where
  "isRewardAvailable Date_time now reward \<longleftrightarrow>
     reward_status reward = PENDING \<and> \<not> isRewardExpired Date_time now reward"

text \<open>
  \<open>toNumber\<close> ends with a \<open>return 0\<close> for a value that is neither a number nor a string,
  which the type of its parameter excludes.
\<close>

definition toNumber :: "parse_float \<Rightarrow> num_or_str \<Rightarrow> jsnum" where
  "toNumber parseFloat v =
     (case v of
        JNum n \<Rightarrow> if isNaN n then Fin 0 else n
      | JStr s \<Rightarrow> let parsed = parseFloat s in if isNaN parsed then Fin 0 else parsed)"

definition calculateDiscountedPrice :: "parse_float \<Rightarrow> jsnum \<Rightarrow> num_or_str \<Rightarrow> jsnum" where
  "calculateDiscountedPrice parseFloat originalPrice discountPercentage =
     (let discount = toNumber parseFloat discountPercentage
      in jmul originalPrice (jsub (Fin 1) (jdiv discount (Fin 100))))"

definition calculateDiscountAmount :: "parse_float \<Rightarrow> jsnum \<Rightarrow> num_or_str \<Rightarrow> jsnum" where
  "calculateDiscountAmount parseFloat originalPrice discountPercentage =
     (let discount = toNumber parseFloat discountPercentage
      in jsub originalPrice (calculateDiscountedPrice parseFloat originalPrice (JNum discount)))"

definition filterAvailableRewards :: "date_time \<Rightarrow> int \<Rightarrow> Reward list \<Rightarrow> Reward list" where
  "filterAvailableRewards Date_time now rewards = filter (isRewardAvailable Date_time now) rewards"

text \<open>
  \<open>Array.prototype.includes\<close> on strings is exact equality, so membership in the list.
  The configuration argument is optional.
\<close>

definition isPlanEligibleForRewards :: "string \<Rightarrow> RewardConfig option \<Rightarrow> bool" where
  "isPlanEligibleForRewards planDurationUnit config =
     (let eligibleUnits = (case config of None \<Rightarrow> ELIGIBLE_PLAN_UNITS
                                        | Some c \<Rightarrow> eligible_plan_units c)
      in planDurationUnit \<in> set eligibleUnits)"

record PlanInfo =
  duration_unit :: "string option"

record SubscriptionInfo =
  info_start_date :: string
  info_end_date :: string
  plan :: "PlanInfo option"

text \<open>\<open>subscription.plan?.duration_unit\<close> is truthy for a present, non-empty string.\<close>

definition canCalculateRewardForRenewal ::
  "SubscriptionInfo option \<Rightarrow> jsnum \<Rightarrow> RewardConfig option \<Rightarrow> bool" where
  "canCalculateRewardForRenewal subscription attendanceCount config =
     (case subscription of
        None \<Rightarrow> False
      | Some sub \<Rightarrow>
          let threshold = (case config of None \<Rightarrow> ATTENDANCE_THRESHOLD
                                        | Some c \<Rightarrow> attendance_threshold c);
              isEligiblePlan =
                (case plan sub of
                   None \<Rightarrow> False
                 | Some pl \<Rightarrow>
                     (case duration_unit pl of
                        None \<Rightarrow> False
                      | Some u \<Rightarrow> if u = [] then False else isPlanEligibleForRewards u config))
          in isEligiblePlan \<and> jge attendanceCount threshold)"

record Attendance =
  check_in :: string

text \<open>The list of attendances may be absent (\<open>!attendances\<close>).\<close>

definition in_cycle :: "date_time \<Rightarrow> string \<Rightarrow> string \<Rightarrow> Attendance \<Rightarrow> bool" where
  "in_cycle Date_time startDate endDate att =
     (let start = Date_time startDate;
          end_d = Date_time endDate;
          checkIn = Date_time (check_in att)
      in date_le start checkIn \<and> date_le checkIn end_d)"

definition calculateCycleAttendances ::
  "date_time \<Rightarrow> Attendance list option \<Rightarrow> string \<Rightarrow> string \<Rightarrow> nat" where
  "calculateCycleAttendances Date_time attendances startDate endDate =
     (case attendances of
        None \<Rightarrow> 0
      | Some atts \<Rightarrow>
          if length atts = 0 then 0
          else length (filter (in_cycle Date_time startDate endDate) atts))"

section \<open>The \<open>RewardProgress\<close> component\<close>

record ActiveSubscription =
  as_id :: string
  as_start_date :: string
  as_end_date :: string
  as_plan_id :: string

record SubscriptionPlan =
  plan_duration_unit :: string

record Progress =
  cycleAttendances :: jsnum
  threshold :: jsnum
  progressPercentage :: jsnum
  remaining :: jsnum
  isComplete :: bool
  discountPercentage :: jsnum

text \<open>
  The memoised \<open>progress\<close>; \<open>None\<close> is the source's \<open>null\<close>, on which the component
  renders nothing. The configuration is always present here (\<open>getRewardConfigData\<close>).
  The count is the length of an array, a natural number that a \<open>number\<close> holds exactly.
\<close>

definition progress ::
  "date_time \<Rightarrow> RewardConfig \<Rightarrow> ActiveSubscription option \<Rightarrow> SubscriptionPlan option \<Rightarrow>
   Attendance list option \<Rightarrow> Progress option" where
  "progress Date_time config activeSubscription subscriptionPlan attendances =
     (case (activeSubscription, subscriptionPlan, attendances) of
        (Some sub, Some pl, Some atts) \<Rightarrow>
          if length atts = 0 then None
          else if \<not> isPlanEligibleForRewards (plan_duration_unit pl) (Some config) then None
          else
            let cycle = Fin (of_nat (calculateCycleAttendances Date_time attendances
                                       (as_start_date sub) (as_end_date sub)));
                thr = attendance_threshold config
            in Some \<lparr> cycleAttendances = cycle,
                      threshold = thr,
                      progressPercentage = Math_min (jmul (jdiv cycle thr) (Fin 100)) (Fin 100),
                      remaining = Math_max (Fin 0) (jsub thr cycle),
                      isComplete = jge cycle thr,
                      discountPercentage = discount_percentage config \<rparr>
      | _ \<Rightarrow> None)"

section \<open>Subscriptions: \<open>features/subscriptions\<close>\<close>

datatype SubscriptionStatus = ACTIVE | EXPIRED | PENDING_PAYMENT | CANCELED | SCHEDULED

record Subscription =
  sub_id :: string
  client_id :: string
  plan_id :: string
  start_date :: string
  end_date :: string
  status :: SubscriptionStatus
  cancellation_date :: "string option"
  cancellation_reason :: "string option"
  final_price :: "jsnum option"
  created_at :: string
  updated_at :: string

subsection \<open>The \<open>RewardCalculationStatus\<close> component\<close>

text \<open>
  The memoised \<open>rewardStatus\<close>. The display texts the source stores next to the tag are
  functions of the reward and are not carried.
\<close>

datatype reward_state =
    Loading
  | Error
  | Calculated Reward
  | Applied
  | NotEligible jsnum
  | NotCalculated

definition rewardStatus ::
  "date_time \<Rightarrow> int \<Rightarrow> bool \<Rightarrow> bool \<Rightarrow> Reward list option \<Rightarrow>
   RewardEligibilityResponse option \<Rightarrow> reward_state" where
  "rewardStatus Date_time now isLoading error rewards lastCalculationResult =
     (if isLoading then Loading
      else if error then Error
      else
        let availableRewards = (case rewards of None \<Rightarrow> []
                                  | Some rs \<Rightarrow> filterAvailableRewards Date_time now rs);
            appliedRewards = (case rewards of None \<Rightarrow> []
                                | Some rs \<Rightarrow> filter (\<lambda>r. reward_status r = APPLIED) rs)
        in case availableRewards of
             reward # _ \<Rightarrow> Calculated reward
           | [] \<Rightarrow>
               if 0 < length appliedRewards then Applied
               else
                 (case lastCalculationResult of
                    Some res \<Rightarrow> if \<not> eligible res then NotEligible (attendance_count res)
                                else NotCalculated
                  | None \<Rightarrow> NotCalculated))"

subsection \<open>The \<open>RenewSubscriptionModal\<close> component\<close>

record RenewalCheck =
  canRenew :: bool
  daysRemaining :: int
  message :: "string option"

text \<open>
  \<open>canRenewByDaysRemaining\<close> (\<open>utils/subscriptionFilters\<close>) is the days-remaining policy;
  it is a parameter of the check.
\<close>

definition renewalCheck ::
  "(Subscription \<Rightarrow> RenewalCheck) \<Rightarrow> Subscription option \<Rightarrow> RenewalCheck" where
  "renewalCheck canRenewByDaysRemaining subscription =
     (case subscription of
        None \<Rightarrow> \<lparr> canRenew = False, daysRemaining = 0, message = None \<rparr>
      | Some sub \<Rightarrow>
          if status sub = EXPIRED
            then \<lparr> canRenew = True, daysRemaining = 0, message = None \<rparr>
          else if status sub = ACTIVE
            then canRenewByDaysRemaining sub
          else \<lparr> canRenew = False, daysRemaining = 0, message = None \<rparr>)"

text \<open>The \<open>disabled\<close> attribute of the confirm button.\<close>

definition confirm_disabled :: "bool \<Rightarrow> bool \<Rightarrow> RenewalCheck \<Rightarrow> bool" where
  "confirm_disabled isSubmitting isLoading check \<longleftrightarrow>
     isSubmitting \<or> isLoading \<or> \<not> canRenew check"

text \<open>
  The state of the modal (its \<open>useState\<close> cells), the events it sends out, in the order
  it sends them, and the ways a promise it awaits can settle. A rejection carries what was
  thrown: an \<open>Error\<close> object with its message, or something else.
\<close>

record ModalState =
  isSubmitting :: bool
  error_text :: "string option"
  selectedReward :: "Reward option"
  hasCalculatedReward :: bool

datatype modal_event =
    RenewalCall "jsnum option"
  | ApplyRewardCall string string jsnum
  | LoggerError string
  | OnClose

datatype thrown = ErrorObject string | NotAnError

datatype 'a settled = Resolved 'a | Rejected thrown

text \<open>The two texts with an accented letter; \<open>0xF3\<close> is the code unit of o-acute.\<close>

definition RENEWAL_FALLBACK_MESSAGE :: string where
  "RENEWAL_FALLBACK_MESSAGE = ''Error al renovar la suscripci'' @ [CHR 0xF3] @ ''n''"

definition REWARD_MARKING_WARNING :: string where
  "REWARD_MARKING_WARNING =
     ''La suscripci'' @ [CHR 0xF3] @ ''n se renov'' @ [CHR 0xF3] @
     '' pero hubo un problema al marcar la recompensa como aplicada''"

definition error_message :: "thrown \<Rightarrow> string \<Rightarrow> string" where
  "error_message e fallback = (case e of ErrorObject m \<Rightarrow> m | NotAnError \<Rightarrow> fallback)"

definition handleClose :: "ModalState \<Rightarrow> ModalState \<times> modal_event list" where
  "handleClose st =
     (st \<lparr> error_text := None, isSubmitting := False, selectedReward := None \<rparr>, [OnClose])"

text \<open>The discount handed to the renewal call; \<open>None\<close> is \<open>undefined\<close>.\<close>

definition resolve_discount :: "parse_float \<Rightarrow> Reward option \<Rightarrow> jsnum option" where
  "resolve_discount parseFloat sel =
     (case sel of
        None \<Rightarrow> None
      | Some r \<Rightarrow>
          let discount = (case reward_discount_percentage r of
                            JStr s \<Rightarrow> parseFloat s
                          | JNum n \<Rightarrow> n)
          in if isNaN discount then None else Some discount)"

text \<open>
  \<open>handleConfirm\<close> is an \<open>async\<close> function with two \<open>await\<close>s, so it runs in three
  pieces; \<open>pending\<close> says what a piece leaves the handler waiting for. The closure keeps
  the \<open>selectedReward\<close> and the discount of the render it was started from; the state it
  writes to is the current one.
\<close>

datatype pending =
    Finished
  | AwaitRenewal "Reward option" "jsnum option"
  | AwaitApply string string jsnum

text \<open>Up to \<open>await onConfirm(discountPercentage)\<close>.\<close>

definition handleConfirm_begin ::
  "parse_float \<Rightarrow> Subscription option \<Rightarrow> ModalState \<Rightarrow>
   ModalState \<times> modal_event list \<times> pending" where
  "handleConfirm_begin parseFloat subscription st =
     (case subscription of
        None \<Rightarrow> (st, [], Finished)
      | Some sub \<Rightarrow>
          let st1 = st \<lparr> error_text := None \<rparr>;
              st2 = st1 \<lparr> isSubmitting := True \<rparr>;
              dp = resolve_discount parseFloat (selectedReward st)
          in (st2, [RenewalCall dp], AwaitRenewal (selectedReward st) dp))"

text \<open>The \<open>finally\<close> block.\<close>

definition finally_block :: "ModalState \<Rightarrow> ModalState" where
  "finally_block st = st \<lparr> isSubmitting := False \<rparr>"

definition close_and_finish :: "ModalState \<Rightarrow> ModalState \<times> modal_event list \<times> pending" where
  "close_and_finish st =
     (let (st1, ev) = handleClose st in (finally_block st1, ev, Finished))"

text \<open>
  From the settling of the renewal call up to \<open>await applyRewardMutation.mutateAsync\<close>,
  or to the end. A subscription id is truthy when it is a non-empty string.
\<close>

definition handleConfirm_renewed ::
  "Reward option \<Rightarrow> jsnum option \<Rightarrow> string option settled \<Rightarrow> ModalState \<Rightarrow>
   ModalState \<times> modal_event list \<times> pending" where
  "handleConfirm_renewed sel dp outcome st =
     (case outcome of
        Rejected err \<Rightarrow>
          (finally_block (st \<lparr> error_text := Some (error_message err RENEWAL_FALLBACK_MESSAGE) \<rparr>),
           [], Finished)
      | Resolved newSubscriptionId \<Rightarrow>
          (case (sel, newSubscriptionId, dp) of
             (Some r, Some sid, Some d) \<Rightarrow>
               if sid \<noteq> [] then (st, [ApplyRewardCall (reward_id r) sid d],
                                  AwaitApply (reward_id r) sid d)
               else close_and_finish st
           | _ \<Rightarrow> close_and_finish st))"

text \<open>From the settling of the apply-reward call to the end.\<close>

definition handleConfirm_applied ::
  "unit settled \<Rightarrow> ModalState \<Rightarrow> ModalState \<times> modal_event list \<times> pending" where
  "handleConfirm_applied outcome st =
     (case outcome of
        Rejected rewardError \<Rightarrow>
          let errorMessage = error_message rewardError ''Error desconocido'';
              st1 = st \<lparr> error_text := Some REWARD_MARKING_WARNING \<rparr>;
              (st2, ev, k) = close_and_finish st1
          in (st2, LoggerError errorMessage # ev, k)
      | Resolved _ \<Rightarrow> close_and_finish st)"

text \<open>
  The whole handler, when nothing else touches the state between its pieces: the two
  calls are answered by \<open>onConfirm\<close> and \<open>mutateAsync\<close>.
\<close>

definition handleConfirm ::
  "parse_float \<Rightarrow> (jsnum option \<Rightarrow> string option settled) \<Rightarrow>
   (string \<Rightarrow> string \<Rightarrow> jsnum \<Rightarrow> unit settled) \<Rightarrow>
   Subscription option \<Rightarrow> ModalState \<Rightarrow> ModalState \<times> modal_event list" where
  "handleConfirm parseFloat onConfirm mutateAsync subscription st =
     (case handleConfirm_begin parseFloat subscription st of
        (st1, ev1, AwaitRenewal sel dp) \<Rightarrow>
          (case handleConfirm_renewed sel dp (onConfirm dp) st1 of
             (st2, ev2, AwaitApply rid sid d) \<Rightarrow>
               (case handleConfirm_applied (mutateAsync rid sid d) st2 of
                  (st3, ev3, _) \<Rightarrow> (st3, ev1 @ ev2 @ ev3))
           | (st2, ev2, _) \<Rightarrow> (st2, ev1 @ ev2))
      | (st1, ev1, _) \<Rightarrow> (st1, ev1))"

text \<open>
  Modelled from the spec: the \<open>Button\<close> component of \<open>components/ui/Button\<close>, which is
  not among the sources. The modal renders it with \<open>onClick={handleConfirm}\<close> and the
  \<open>disabled\<close> attribute above, and nothing else calls the handler; "invoking the submit
  handler again must be a no-op (control disabled)": a click on the disabled control
  calls nothing, a click on the enabled one starts the handler. The state is the one of
  the last render: the flag the handler sets before its first \<open>await\<close> is rendered before
  a next click is delivered.
\<close>

definition confirm_click ::
  "parse_float \<Rightarrow> bool \<Rightarrow> RenewalCheck \<Rightarrow> Subscription option \<Rightarrow> ModalState \<Rightarrow>
   ModalState \<times> modal_event list \<times> pending" where
  "confirm_click parseFloat isLoading check subscription st =
     (if confirm_disabled (isSubmitting st) isLoading check then (st, [], Finished)
      else handleConfirm_begin parseFloat subscription st)"

subsection \<open>Query keys and the cache calls of \<open>useCancelSubscription\<close>\<close>

type_synonym query_key = "string list"

definition keys_all :: query_key where
  "keys_all = [''subscriptions'']"

definition keys_lists :: query_key where
  "keys_lists = keys_all @ [''list'']"

definition keys_list :: "string \<Rightarrow> query_key" where
  "keys_list clientId = keys_lists @ [clientId]"

definition keys_details :: query_key where
  "keys_details = keys_all @ [''detail'']"

definition keys_detail :: "string \<Rightarrow> query_key" where
  "keys_detail i = keys_details @ [i]"

definition keys_active :: "string \<Rightarrow> query_key" where
  "keys_active clientId = keys_list clientId @ [''active'']"

definition keys_paymentStats :: "string \<Rightarrow> query_key" where
  "keys_paymentStats subscriptionId = [''paymentStats'', subscriptionId]"

text \<open>
  The calls \<open>onSuccess\<close> makes on the query client, in order. \<open>setQueryData\<close> is given
  either a value or an updater of the cached list, whose argument is absent when nothing
  is cached.
\<close>

datatype cache_call =
    SetQueryData query_key Subscription
  | UpdateQueryData query_key "Subscription list option \<Rightarrow> Subscription list"
  | InvalidateQueries query_key

record MutationVariables =
  var_clientId :: string
  var_subscriptionId :: string

definition cancel_onSuccess :: "Subscription \<Rightarrow> MutationVariables \<Rightarrow> cache_call list" where
  "cancel_onSuccess data variables =
     [ SetQueryData (keys_detail (var_subscriptionId variables)) data,
       InvalidateQueries (keys_list (var_clientId variables)),
       InvalidateQueries (keys_active (var_clientId variables)),
       UpdateQueryData (keys_list (var_clientId variables))
         (\<lambda>old. map (\<lambda>s. if sub_id s = var_subscriptionId variables then data else s)
                    (case old of None \<Rightarrow> [] | Some xs \<Rightarrow> xs)),
       InvalidateQueries [''paymentStats'', var_subscriptionId variables] ]"

section \<open>Sample data\<close>

text \<open>Concrete values on which the theorems below are exercised.\<close>

definition sample_reward :: Reward where
  "sample_reward = \<lparr> reward_id = ''r1'', reward_status = PENDING,
                      reward_discount_percentage = JNum (Fin 20), expires_at = None \<rparr>"

definition sample_subscription :: Subscription where
  "sample_subscription =
     \<lparr> sub_id = ''sub-1'', client_id = ''c1'', plan_id = ''p1'',
       start_date = ''2024-01-01'', end_date = ''2024-01-31'', status = EXPIRED,
       cancellation_date = None, cancellation_reason = None, final_price = None,
       created_at = ''2024-01-01T00:00:00Z'', updated_at = ''2024-01-01T00:00:00Z'' \<rparr>"

definition sample_state :: ModalState where
  "sample_state = \<lparr> isSubmitting = False, error_text = None,
                     selectedReward = Some sample_reward, hasCalculatedReward = True \<rparr>"

definition sample_config :: RewardConfig where
  "sample_config = \<lparr> attendance_threshold = Fin 20, discount_percentage = Fin 20,
                      expiration_days = Fin 7, eligible_plan_units = [''month''] \<rparr>"

definition sample_active :: ActiveSubscription where
  "sample_active = \<lparr> as_id = ''sub-1'', as_start_date = ''2024-01-01'',
                      as_end_date = ''2024-01-31'', as_plan_id = ''p1'' \<rparr>"

text \<open>Time values, in milliseconds since the epoch, of the date strings used below.\<close>

definition sample_Date_time :: date_time where
  "sample_Date_time s =
     (if s = ''2024-01-01'' then Some 1704067200000
      else if s = ''2024-01-31'' then Some 1706659200000
      else if s = ''2023-12-31T23:59:59Z'' then Some 1704067199000
      else if s = ''2024-01-15T10:00:00Z'' then Some 1705312800000
      else if s = ''2024-01-31T00:00:01Z'' then Some 1706659201000
      else None)"

section \<open>Properties\<close>

subsection \<open>Operators on finite numbers\<close>

lemma jadd_Fin: "jadd (Fin a) (Fin b) = fl (a + b)"
  by (simp add: jadd_def fl_def)

lemma jsub_Fin: "jsub (Fin a) (Fin b) = fl (a - b)"
  by (cases "b = 0") (simp_all add: jsub_def jadd_def fl_def)

lemma jmul_Fin:
  "jmul (Fin a) (Fin b) =
     (if a * b = 0 then signed_zero ((a < 0) \<noteq> (b < 0)) else fl (a * b))"
  by (simp add: jmul_def)

lemma jdiv_Fin:
  "b \<noteq> 0 \<Longrightarrow>
   jdiv (Fin a) (Fin b) = (if a = 0 then signed_zero (b < 0) else fl (a / b))"
  by (simp add: jdiv_def)

subsection \<open>Rounding\<close>

text \<open>
  The rounding on familiar values: the binary64 value of \<open>0.1\<close>; \<open>0.1 + 0.2\<close>, which is
  \<open>0.30000000000000004\<close> and not the binary64 value of \<open>0.3\<close>; and a tie, rounded to the
  even neighbour.
\<close>

lemma fl_tenth: "fl (1 / 10) = Fin (3602879701896397 / 36028797018963968)"
  by code_simp

lemma tenth_plus_fifth:
  "jadd (Fin (3602879701896397 / 36028797018963968)) (Fin (3602879701896397 / 18014398509481984)) =
     Fin (1351079888211149 / 4503599627370496)
   \<and> fl (3 / 10) = Fin (5404319552844595 / 18014398509481984)"
  by code_simp

lemma fl_ties_to_even:
  "fl (2 ^ 53 + 1) = Fin (2 ^ 53) \<and> fl (2 ^ 53 + 3) = Fin (2 ^ 53 + 4)"
  by code_simp

text \<open>
  Facts about the rounding that the later proofs use: an integer of magnitude below
  \<open>2^53\<close> is a binary64 value, and rounding keeps the sign.
\<close>

lemma round_half_even_of_int: "round_half_even (of_int k) = k"
  by (simp add: round_half_even_def)

lemma round_half_even_nonneg: "0 \<le> x \<Longrightarrow> 0 \<le> round_half_even x"
  by (auto simp: round_half_even_def Let_def)

lemma pow2_pos: "0 < pow2 e"
  by (simp add: pow2_def)

lemma fl_nonpos:
  assumes "x \<le> 0"
  shows "fl x = NInf \<or> fl x = NegZero \<or> (\<exists>v. v \<le> 0 \<and> fl x = Fin v)"
proof (cases "x = 0")
  case True
  then show ?thesis by (simp add: fl_def)
next
  case False
  with assms have neg: "\<not> 0 < x" by simp
  define q where "q = pow2 (max (binade \<bar>x\<bar>) (- 1022) - 52)"
  define y where "y = of_int (round_half_even (\<bar>x\<bar> / q)) * q"
  have "0 < q" by (simp add: q_def pow2_pos)
  then have "0 \<le> \<bar>x\<bar> / q" by simp
  then have "0 \<le> round_half_even (\<bar>x\<bar> / q)" by (rule round_half_even_nonneg)
  with \<open>0 < q\<close> have "0 \<le> y" by (simp add: y_def)
  have "fl x = (if pow2 1024 \<le> y then NInf else if y = 0 then NegZero else Fin (- y))"
    using False neg by (simp add: fl_def Let_def q_def y_def)
  with \<open>0 \<le> y\<close> show ?thesis by auto
qed

lemma Math_max_zero_nonpos:
  assumes "x \<le> 0"
  shows "Math_max (Fin 0) (fl x) = Fin 0"
  using fl_nonpos[OF assms] by (auto simp: Math_max_def)

lemma bitlen_pos_bounds:
  assumes "0 < (n::int)"
  shows "2 ^ nat (bitlen n - 1) \<le> n" and "n < 2 ^ nat (bitlen n)" and "0 < bitlen n"
proof -
  from bitlen_bounds[OF assms] show a: "2 ^ nat (bitlen n - 1) \<le> n" and b: "n < 2 ^ nat (bitlen n)"
    by simp_all
  show "0 < bitlen n"
  proof (rule ccontr)
    assume "\<not> 0 < bitlen n"
    then have "nat (bitlen n) = 0" by simp
    with b have "n < 1" by simp
    with assms show False by simp
  qed
qed

lemma bitlen_one: "bitlen 1 = 1"
  by (simp add: bitlen_def floorlog_def)

lemma binade_of_int:
  assumes "0 < (n::int)"
  shows "binade (of_int n) = bitlen n - 1"
proof -
  have "pow2 (bitlen n - 1) = of_int (2 ^ nat (bitlen n - 1))"
    using bitlen_pos_bounds(3)[OF assms] by (simp add: pow2_def)
  also have "\<dots> \<le> of_int n"
    using bitlen_pos_bounds(1)[OF assms] by (simp only: of_int_le_iff)
  finally have "pow2 (bitlen n - 1) \<le> of_int n" .
  then show ?thesis
    by (simp add: binade_def bitlen_one)
qed

lemma fl_of_int_pos:
  assumes "0 < (n::int)" and "n < 2 ^ 53"
  shows "fl (of_int n) = Fin (of_int n)"
proof -
  define b where "b = bitlen n"
  have b0: "0 < b" using bitlen_pos_bounds(3)[OF assms(1)] by (simp add: b_def)
  have "2 ^ nat (b - 1) \<le> n" using bitlen_pos_bounds(1)[OF assms(1)] by (simp add: b_def)
  with assms(2) have lt: "(2::int) ^ nat (b - 1) < 2 ^ 53" by simp
  have "nat (b - 1) < 53"
  proof (rule ccontr)
    assume "\<not> nat (b - 1) < 53"
    then have "53 \<le> nat (b - 1)" by simp
    then have "(2::int) ^ 53 \<le> 2 ^ nat (b - 1)" by (rule power_increasing) simp
    with lt show False by simp
  qed
  with b0 have b53: "b \<le> 53" by simp
  define k where "k = nat (53 - b)"
  have e: "max (binade (of_int n)) (- 1022) - 52 = - int k"
    using b0 b53 by (simp add: binade_of_int[OF assms(1)] b_def[symmetric] k_def)
  have q: "pow2 (- int k) = 1 / 2 ^ k"
    by (cases "k = 0") (simp_all add: pow2_def)
  have div: "(of_int n :: rat) / (1 / 2 ^ k) = of_int (n * 2 ^ k)"
    by simp
  have y: "of_int (round_half_even ((of_int n :: rat) / (1 / 2 ^ k))) * (1 / 2 ^ k) = (of_int n :: rat)"
    unfolding div round_half_even_of_int by simp
  have small: "\<not> pow2 1024 \<le> (of_int n :: rat)"
  proof -
    have "(of_int n :: rat) < of_int (2 ^ 53)" using assms(2) by (simp only: of_int_less_iff)
    also have "\<dots> \<le> pow2 1024" by (simp add: pow2_def)
    finally show ?thesis by simp
  qed
  have pos: "(0::rat) < of_int n" "(of_int n :: rat) \<noteq> 0" "\<bar>of_int n :: rat\<bar> = of_int n"
    using assms(1) by simp_all
  show ?thesis
    unfolding fl_def Let_def pos(3) e q y
    using pos small by simp
qed

lemma fl_neg: "x \<noteq> 0 \<Longrightarrow> fl (- x) = jneg (fl x)"
  by (cases "0 < x") (auto simp: fl_def Let_def)

lemma fl_of_int:
  assumes "\<bar>n::int\<bar> < 2 ^ 53"
  shows "fl (of_int n) = Fin (of_int n)"
proof -
  consider "n = 0" | "0 < n" | "n < 0" by linarith
  then show ?thesis
  proof cases
    case 1
    then show ?thesis by (simp add: fl_def)
  next
    case 2
    with assms show ?thesis by (intro fl_of_int_pos) simp_all
  next
    case 3
    with assms have "fl (of_int (- n)) = Fin (of_int (- n))"
      by (intro fl_of_int_pos) simp_all
    then have "fl (- of_int n) = Fin (- of_int n)" by simp
    moreover from 3 have "fl (- of_int n) = jneg (fl (of_int n))"
      by (intro fl_neg) simp
    ultimately have "jneg (fl (of_int n)) = Fin (- of_int n)" by simp
    with 3 show ?thesis by (cases "fl (of_int n :: rat)") (simp_all split: if_splits)
  qed
qed

lemma fl_zero: "fl 0 = Fin 0"
  by (simp add: fl_def)

lemma fl_one: "fl 1 = Fin 1"
  using fl_of_int[of 1] by simp

lemma jge_Fin: "jge (Fin a) (Fin b) \<longleftrightarrow> b \<le> a"
  by (simp add: jge_def)

text \<open>
  The rounding is to a nearest value: a finite result is a multiple \<open>m * q\<close> of the
  spacing \<open>q\<close> of the binade of the argument, with a significand \<open>m\<close> of at most 53
  bits (or \<open>2^53\<close>, when rounding carries into the next binade), and lies within half a
  spacing of the argument; \<open>-0\<close> is the multiple \<open>0\<close> for a negative argument.
\<close>

lemma pow2_power_int: "pow2 e = power_int 2 e"
  by (simp add: pow2_def power_int_def inverse_eq_divide power_one_over)

lemma pow2_add: "pow2 (i + j) = pow2 i * pow2 j"
  by (simp add: pow2_power_int power_int_add)

lemma pow2_mono: "i \<le> j \<Longrightarrow> pow2 i \<le> pow2 j"
  by (simp add: pow2_power_int power_int_increasing)

lemma round_half_even_error: "\<bar>of_int (round_half_even x) - x\<bar> \<le> 1 / 2"
proof -
  have "of_int \<lfloor>x\<rfloor> \<le> x" "x < of_int \<lfloor>x\<rfloor> + 1" by linarith+
  then show ?thesis
    by (auto simp: round_half_even_def Let_def abs_le_iff)
qed

lemma quotient_of_pos:
  assumes "0 < a" and "quotient_of a = (n, d)"
  shows "0 < n" and "0 < d" and "a = of_int n / of_int d"
proof -
  from assms(2) show d: "0 < d" by (rule quotient_of_denom_pos)
  from assms(2) show eq: "a = of_int n / of_int d" by (rule quotient_of_div)
  from assms(1) eq d show "0 < n"
    by (simp add: zero_less_divide_iff)
qed

lemma binade_bounds:
  assumes "0 < a"
  shows "pow2 (binade a) \<le> a" and "a < pow2 (binade a + 1)"
proof -
  obtain n d where q: "quotient_of a = (n, d)" by (cases "quotient_of a")
  from quotient_of_pos[OF assms q] have n: "0 < n" and d: "0 < d"
    and a: "a = of_int n / of_int d" by simp_all
  define bn where "bn = bitlen n"
  define bd where "bd = bitlen d"
  have bn: "2 ^ nat (bn - 1) \<le> n" "n < 2 ^ nat bn" "0 < bn"
    using bitlen_pos_bounds[OF n] by (simp_all add: bn_def)
  have bd: "2 ^ nat (bd - 1) \<le> d" "d < 2 ^ nat bd" "0 < bd"
    using bitlen_pos_bounds[OF d] by (simp_all add: bd_def)
  have rn: "pow2 (bn - 1) \<le> of_int n" "of_int n < pow2 bn"
  proof -
    have "pow2 (bn - 1) = of_int (2 ^ nat (bn - 1))" using bn(3) by (simp add: pow2_def)
    also have "\<dots> \<le> of_int n" using bn(1) by (simp only: of_int_le_iff)
    finally show "pow2 (bn - 1) \<le> of_int n" .
    have "(of_int n :: rat) < of_int (2 ^ nat bn)" using bn(2) by (simp only: of_int_less_iff)
    also have "\<dots> = pow2 bn" using bn(3) by (simp add: pow2_def)
    finally show "of_int n < pow2 bn" .
  qed
  have rd: "pow2 (bd - 1) \<le> of_int d" "of_int d < pow2 bd"
  proof -
    have "pow2 (bd - 1) = of_int (2 ^ nat (bd - 1))" using bd(3) by (simp add: pow2_def)
    also have "\<dots> \<le> of_int d" using bd(1) by (simp only: of_int_le_iff)
    finally show "pow2 (bd - 1) \<le> of_int d" .
    have "(of_int d :: rat) < of_int (2 ^ nat bd)" using bd(2) by (simp only: of_int_less_iff)
    also have "\<dots> = pow2 bd" using bd(3) by (simp add: pow2_def)
    finally show "of_int d < pow2 bd" .
  qed
  have dpos: "(0::rat) < of_int d" using d by simp
  have lower: "pow2 (bn - bd - 1) \<le> a"
  proof -
    have "pow2 (bn - bd - 1) * of_int d \<le> pow2 (bn - bd - 1) * pow2 bd"
      using rd(2) pow2_pos[of "bn - bd - 1"] by (simp add: mult_left_mono less_imp_le)
    also have "\<dots> = pow2 (bn - 1)" by (simp add: pow2_add[symmetric])
    also have "\<dots> \<le> of_int n" by (rule rn(1))
    finally show ?thesis using dpos by (simp add: a pos_le_divide_eq)
  qed
  have upper: "a < pow2 (bn - bd + 1)"
  proof -
    have "of_int n < pow2 bn" by (rule rn(2))
    also have "\<dots> = pow2 (bn - bd + 1) * pow2 (bd - 1)" by (simp add: pow2_add[symmetric])
    also have "\<dots> \<le> pow2 (bn - bd + 1) * of_int d"
      using rd(1) pow2_pos[of "bn - bd + 1"] by (simp add: mult_left_mono less_imp_le)
    finally show ?thesis using dpos by (simp add: a pos_divide_less_eq)
  qed
  have b: "binade a = (if pow2 (bn - bd) \<le> a then bn - bd else bn - bd - 1)"
    by (simp add: binade_def q bn_def bd_def)
  show "pow2 (binade a) \<le> a"
    using lower by (simp add: b)
  show "a < pow2 (binade a + 1)"
    using upper by (auto simp: b)
qed

lemma round_half_even_less:
  assumes "x < of_int k"
  shows "round_half_even x \<le> k"
proof -
  have "of_int (round_half_even x) - x \<le> 1 / 2"
    using round_half_even_error[of x] by linarith
  with assms have "(of_int (round_half_even x) :: rat) < of_int k + 1" by linarith
  then have "(of_int (round_half_even x) :: rat) < of_int (k + 1)" by simp
  then have "round_half_even x < k + 1" by (simp only: of_int_less_iff)
  then show ?thesis by simp
qed

lemma fl_nearest:
  assumes "x \<noteq> 0"
  defines "q \<equiv> pow2 (max (binade \<bar>x\<bar>) (- 1022) - 52)"
  shows "fl x = PInf \<or> fl x = NInf \<or>
         (\<exists>m. (fl x = Fin (of_int m * q) \<or> fl x = NegZero \<and> m = 0) \<and>
              \<bar>m\<bar> \<le> 2 ^ 53 \<and> \<bar>of_int m * q - x\<bar> \<le> q / 2)"
proof -
  define a where "a = \<bar>x\<bar>"
  define e where "e = max (binade a) (- 1022)"
  define m where "m = round_half_even (a / q)"
  have apos: "0 < a" using assms(1) by (simp add: a_def)
  have qdef: "q = pow2 (e - 52)" by (simp add: q_def e_def a_def)
  have qpos: "0 < q" by (simp add: qdef pow2_pos)
  have m0: "0 \<le> m"
    unfolding m_def using apos qpos by (intro round_half_even_nonneg) simp
  have "a < pow2 (binade a + 1)" by (rule binade_bounds(2)[OF apos])
  also have "\<dots> \<le> pow2 (e + 1)" by (rule pow2_mono) (simp add: e_def)
  also have "\<dots> = pow2 (53 + (e - 52))" by (rule arg_cong[where f = pow2]) simp
  also have "\<dots> = pow2 53 * q" by (simp only: qdef pow2_add)
  finally have "a / q < pow2 53" using qpos by (simp add: pos_divide_less_eq)
  also have "pow2 53 = of_int (2 ^ 53)" by (simp add: pow2_def)
  finally have m53: "m \<le> 2 ^ 53" unfolding m_def by (rule round_half_even_less)
  have "\<bar>of_int m - a / q\<bar> \<le> 1 / 2" unfolding m_def by (rule round_half_even_error)
  then have "\<bar>of_int m - a / q\<bar> * q \<le> 1 / 2 * q"
    using qpos by (intro mult_right_mono) simp_all
  also have "\<bar>of_int m - a / q\<bar> * q = \<bar>of_int m * q - a\<bar>"
  proof -
    have "\<bar>of_int m - a / q\<bar> * q = \<bar>(of_int m - a / q) * q\<bar>"
      using qpos by (simp add: abs_mult)
    also have "(of_int m - a / q) * q = of_int m * q - a"
      using qpos by (simp add: left_diff_distrib)
    finally show ?thesis .
  qed
  finally have err: "\<bar>of_int m * q - a\<bar> \<le> q / 2" by simp
  have flx: "fl x = (if pow2 1024 \<le> of_int m * q then (if 0 < x then PInf else NInf)
                 else if 0 < x then Fin (of_int m * q)
                 else if of_int m * q = 0 then NegZero else Fin (- (of_int m * q)))"
    using assms(1) by (simp add: fl_def Let_def q_def m_def a_def)
  show ?thesis
  proof (cases "pow2 1024 \<le> of_int m * q")
    case True
    then show ?thesis by (simp add: flx)
  next
    case False
    show ?thesis
    proof (cases "0 < x")
      case True
      then have "a = x" by (simp add: a_def)
      with err m0 m53 False True flx have
        "fl x = Fin (of_int m * q) \<and> \<bar>m\<bar> \<le> 2 ^ 53 \<and> \<bar>of_int m * q - x\<bar> \<le> q / 2"
        by simp
      then show ?thesis by blast
    next
      case neg: False
      with assms(1) have "a = - x" by (simp add: a_def)
      with err have "\<bar>of_int m * q + x\<bar> \<le> q / 2" by simp
      moreover have "of_int (- m) * q - x = - (of_int m * q + x)" by simp
      ultimately have "\<bar>of_int (- m) * q - x\<bar> \<le> q / 2" by (simp only: abs_minus_cancel)
      note near = this
      have "fl x = Fin (of_int (- m) * q) \<or> fl x = NegZero \<and> - m = 0"
        using False neg flx qpos by (cases "m = 0") simp_all
      moreover have "\<bar>- m\<bar> \<le> 2 ^ 53" using m0 m53 by simp
      ultimately show ?thesis using near by blast
    qed
  qed
qed

subsection \<open>Discounted price and discount amount\<close>

lemma toNumber_not_NaN: "toNumber pf d \<noteq> NaN"
  by (cases d) (simp_all add: toNumber_def isNaN_def Let_def)

lemma toNumber_idem: "toNumber pf (JNum (toNumber pf d)) = toNumber pf d"
  using toNumber_not_NaN[of pf d] by (simp add: toNumber_def isNaN_def)

lemma toNumber_number: "n \<noteq> NaN \<Longrightarrow> toNumber pf (JNum n) = n"
  by (simp add: toNumber_def isNaN_def)

lemma calculateDiscountAmount_eq:
  "calculateDiscountAmount pf p d = jsub p (calculateDiscountedPrice pf p d)"
  by (simp add: calculateDiscountAmount_def calculateDiscountedPrice_def toNumber_idem Let_def)

text \<open>
  The steps of \<open>calculateDiscountedPrice(49.99, 70)\<close> and of the amount and the sum
  that follow from it, each with its exact binary64 result.
\<close>

lemma step_literal: "fl (4999 / 100) = Fin (7035467042882847 / 140737488355328)"
  by code_simp

lemma step_literal_double: "is_double (7035467042882847 / 140737488355328)"
  unfolding is_double_def by code_simp

lemma step_div: "jdiv (Fin 70) (Fin 100) = Fin (3152519739159347 / 4503599627370496)"
  by code_simp

lemma step_sub: "jsub (Fin 1) (Fin (3152519739159347 / 4503599627370496)) =
                   Fin (1351079888211149 / 4503599627370496)"
  by code_simp

lemma step_mul: "jmul (Fin (7035467042882847 / 140737488355328))
                      (Fin (1351079888211149 / 4503599627370496)) =
                   Fin (4221280225729709 / 281474976710656)"
  by code_simp

lemma step_amount: "jsub (Fin (7035467042882847 / 140737488355328))
                         (Fin (4221280225729709 / 281474976710656)) =
                      Fin (615603366252249 / 17592186044416)"
  by code_simp

lemma step_sum: "jadd (Fin (4221280225729709 / 281474976710656))
                      (Fin (615603366252249 / 17592186044416)) =
                   Fin (3517733521441423 / 70368744177664)"
  by code_simp

text \<open>
  C10, as stated, fails: for the price \<open>49.99\<close> and the discount \<open>70\<close> the discounted
  price is \<open>14.997000000000003\<close>, the amount \<open>34.992999999999995\<close>, and their sum
  \<open>49.989999999999995\<close>, which is not the price.
\<close>

theorem discount_sum_counterexample:
  "is_number (fl (4999 / 100))
   \<and> jadd (calculateDiscountedPrice (\<lambda>s. NaN) (fl (4999 / 100)) (JNum (Fin 70)))
           (calculateDiscountAmount (\<lambda>s. NaN) (fl (4999 / 100)) (JNum (Fin 70)))
       \<noteq> fl (4999 / 100)"
proof -
  let ?p = "Fin (7035467042882847 / 140737488355328)"
  have tn: "toNumber (\<lambda>s. NaN) (JNum (Fin 70)) = Fin 70"
    by (simp add: toNumber_number)
  have price: "calculateDiscountedPrice (\<lambda>s. NaN) ?p (JNum (Fin 70)) =
                 Fin (4221280225729709 / 281474976710656)"
    by (simp only: calculateDiscountedPrice_def Let_def tn step_div step_sub step_mul)
  have amount: "calculateDiscountAmount (\<lambda>s. NaN) ?p (JNum (Fin 70)) =
                 Fin (615603366252249 / 17592186044416)"
    by (simp only: calculateDiscountAmount_eq price step_amount)
  have total: "jadd (calculateDiscountedPrice (\<lambda>s. NaN) ?p (JNum (Fin 70)))
           (calculateDiscountAmount (\<lambda>s. NaN) ?p (JNum (Fin 70)))
       = Fin (3517733521441423 / 70368744177664)"
    by (simp only: price amount step_sum)
  have differ: "Fin (3517733521441423 / 70368744177664) \<noteq> ?p"
    by simp
  have num: "is_number ?p"
    by (simp add: step_literal_double)
  show ?thesis
    unfolding step_literal total using differ num by simp
qed

text \<open>
  C10, amended. For every finite price \<open>p\<close>: a discount that is \<open>NaN\<close>, or a string
  that \<open>parseFloat\<close> reads as \<open>NaN\<close>, is taken as \<open>0\<close>, and with a discount of \<open>0\<close>
  the discounted price is \<open>p\<close>, the amount is \<open>0\<close> and their sum is \<open>p\<close>. For every
  discount the amount is the rounded difference of \<open>p\<close> and the discounted price, so
  the sum of the two is \<open>p\<close> whenever that difference is exact in binary64; when it is
  not, the sum can miss \<open>p\<close>, as it does above.
\<close>

theorem discount_amount_is_rounded_difference:
  assumes "is_double p"
  shows "(d = JNum NaN \<or> (\<exists>s. d = JStr s \<and> pf s = NaN) \<longrightarrow> toNumber pf d = Fin 0)
       \<and> (toNumber pf d = Fin 0 \<longrightarrow>
            calculateDiscountedPrice pf (Fin p) d = Fin p \<and>
            calculateDiscountAmount pf (Fin p) d = Fin 0 \<and>
            jadd (calculateDiscountedPrice pf (Fin p) d) (calculateDiscountAmount pf (Fin p) d) = Fin p)
       \<and> calculateDiscountAmount pf (Fin p) d = jsub (Fin p) (calculateDiscountedPrice pf (Fin p) d)
       \<and> (\<forall>x. calculateDiscountedPrice pf (Fin p) d = Fin x \<and> is_double (p - x) \<longrightarrow>
              jadd (calculateDiscountedPrice pf (Fin p) d) (calculateDiscountAmount pf (Fin p) d) = Fin p)"
proof -
  from assms have flp: "fl p = Fin p" by (simp add: is_double_def)
  have a: "d = JNum NaN \<or> (\<exists>s. d = JStr s \<and> pf s = NaN) \<longrightarrow> toNumber pf d = Fin 0"
    by (auto simp: toNumber_def isNaN_def)
  have b: "toNumber pf d = Fin 0 \<longrightarrow>
            calculateDiscountedPrice pf (Fin p) d = Fin p \<and>
            calculateDiscountAmount pf (Fin p) d = Fin 0 \<and>
            jadd (calculateDiscountedPrice pf (Fin p) d) (calculateDiscountAmount pf (Fin p) d) = Fin p"
  proof
    assume z: "toNumber pf d = Fin 0"
    have price: "calculateDiscountedPrice pf (Fin p) d = Fin p"
      by (simp add: calculateDiscountedPrice_def z jdiv_Fin jsub_Fin jmul_Fin signed_zero_def
            fl_one flp)
    have amount: "calculateDiscountAmount pf (Fin p) d = Fin 0"
      by (simp add: calculateDiscountAmount_eq price jsub_Fin fl_zero)
    show "calculateDiscountedPrice pf (Fin p) d = Fin p \<and>
            calculateDiscountAmount pf (Fin p) d = Fin 0 \<and>
            jadd (calculateDiscountedPrice pf (Fin p) d) (calculateDiscountAmount pf (Fin p) d) = Fin p"
      by (simp add: price amount jadd_Fin flp)
  qed
  have c: "\<forall>x. calculateDiscountedPrice pf (Fin p) d = Fin x \<and> is_double (p - x) \<longrightarrow>
              jadd (calculateDiscountedPrice pf (Fin p) d) (calculateDiscountAmount pf (Fin p) d) = Fin p"
  proof (intro allI impI)
    fix x
    assume h: "calculateDiscountedPrice pf (Fin p) d = Fin x \<and> is_double (p - x)"
    then have "fl (p - x) = Fin (p - x)" by (simp add: is_double_def)
    then have "calculateDiscountAmount pf (Fin p) d = Fin (p - x)"
      using h by (simp add: calculateDiscountAmount_eq jsub_Fin)
    with h show "jadd (calculateDiscountedPrice pf (Fin p) d) (calculateDiscountAmount pf (Fin p) d) = Fin p"
      by (simp add: jadd_Fin flp)
  qed
  from a b c show ?thesis
    by (simp only: calculateDiscountAmount_eq[symmetric] simp_thms)
qed

lemma is_double_hundred: "is_double 100"
  using fl_of_int[of 100] by (simp add: is_double_def)

lemma is_double_fifty: "is_double 50"
  using fl_of_int[of 50] by (simp add: is_double_def)

lemma half_price: "calculateDiscountedPrice (\<lambda>s. NaN) (Fin 100) (JNum (Fin 50)) = Fin 50"
proof -
  have tn: "toNumber (\<lambda>s. NaN) (JNum (Fin 50)) = Fin 50"
    by (simp add: toNumber_number)
  have d: "jdiv (Fin 50) (Fin 100) = Fin (1 / 2)" by code_simp
  have u: "jsub (Fin 1) (Fin (1 / 2)) = Fin (1 / 2)" by code_simp
  have m: "jmul (Fin 100) (Fin (1 / 2)) = Fin 50" by code_simp
  show ?thesis
    by (simp only: calculateDiscountedPrice_def Let_def tn d u m)
qed

theorem discount_amount_is_rounded_difference_witness:
  "calculateDiscountedPrice (\<lambda>s. NaN) (Fin 100) (JStr ''abc'') = Fin 100
   \<and> calculateDiscountAmount (\<lambda>s. NaN) (Fin 100) (JStr ''abc'') = Fin 0
   \<and> calculateDiscountedPrice (\<lambda>s. NaN) (Fin 100) (JNum NaN) = Fin 100
   \<and> calculateDiscountAmount (\<lambda>s. NaN) (Fin 100) (JNum NaN) = Fin 0
   \<and> jadd (calculateDiscountedPrice (\<lambda>s. NaN) (Fin 100) (JNum (Fin 50)))
          (calculateDiscountAmount (\<lambda>s. NaN) (Fin 100) (JNum (Fin 50))) = Fin 100"
proof -
  note t = discount_amount_is_rounded_difference[OF is_double_hundred]
  have z1: "toNumber (\<lambda>s. NaN) (JStr ''abc'') = Fin 0"
    using t[of "JStr ''abc''" "\<lambda>s. NaN"] by blast
  have a: "calculateDiscountedPrice (\<lambda>s. NaN) (Fin 100) (JStr ''abc'') = Fin 100
           \<and> calculateDiscountAmount (\<lambda>s. NaN) (Fin 100) (JStr ''abc'') = Fin 0"
    using t[of "JStr ''abc''" "\<lambda>s. NaN"] z1 by blast
  have z2: "toNumber (\<lambda>s. NaN) (JNum NaN) = Fin 0"
    using t[of "JNum NaN" "\<lambda>s. NaN"] by blast
  have b: "calculateDiscountedPrice (\<lambda>s. NaN) (Fin 100) (JNum NaN) = Fin 100
           \<and> calculateDiscountAmount (\<lambda>s. NaN) (Fin 100) (JNum NaN) = Fin 0"
    using t[of "JNum NaN" "\<lambda>s. NaN"] z2 by blast
  have "is_double (100 - 50)" using is_double_fifty by simp
  with half_price have c: "jadd (calculateDiscountedPrice (\<lambda>s. NaN) (Fin 100) (JNum (Fin 50)))
          (calculateDiscountAmount (\<lambda>s. NaN) (Fin 100) (JNum (Fin 50))) = Fin 100"
    using t[of "JNum (Fin 50)" "\<lambda>s. NaN"] by blast
  from a b c show ?thesis by blast
qed

subsection \<open>Derivation of the reward state\<close>

lemma isRewardExpired_iff:
  "isRewardExpired dt now r \<longleftrightarrow>
     (\<exists>e t. expires_at r = Some e \<and> e \<noteq> [] \<and> dt e = Some t \<and> t < now)"
proof (cases "expires_at r")
  case None
  then show ?thesis by (simp add: isRewardExpired_def)
next
  case (Some e)
  then show ?thesis
    by (cases "dt e") (simp_all add: isRewardExpired_def)
qed

lemma isRewardAvailable_iff:
  "isRewardAvailable dt now r \<longleftrightarrow>
     reward_status r = PENDING \<and>
     \<not> (\<exists>e t. expires_at r = Some e \<and> e \<noteq> [] \<and> dt e = Some t \<and> t < now)"
  unfolding isRewardAvailable_def isRewardExpired_iff ..

lemma filter_nonempty_hd:
  "\<exists>x\<in>set xs. P x \<Longrightarrow> \<exists>y ys. filter P xs = y # ys \<and> y \<in> set xs \<and> P y"
proof (induction xs)
  case Nil
  then show ?case by simp
next
  case (Cons a xs)
  show ?case
  proof (cases "P a")
    case True
    then show ?thesis by simp
  next
    case False
    with Cons.prems have "\<exists>x\<in>set xs. P x" by simp
    from Cons.IH[OF this] False show ?thesis by auto
  qed
qed

lemma rewardStatus_fetched:
  "rewardStatus dt now False False (Some rewards) lastResult =
     (case filter (isRewardAvailable dt now) rewards of
        reward # _ \<Rightarrow> Calculated reward
      | [] \<Rightarrow>
          if filter (\<lambda>r. reward_status r = APPLIED) rewards \<noteq> [] then Applied
          else (case lastResult of
                  Some res \<Rightarrow> if eligible res then NotCalculated
                              else NotEligible (attendance_count res)
                | None \<Rightarrow> NotCalculated))"
  by (simp add: rewardStatus_def filterAvailableRewards_def split: list.splits option.splits)

text \<open>
  C3. Once the rewards of the subscription are fetched (the query is neither loading nor
  failed), the derived state follows a fixed precedence. A reward is usable when its
  status is pending and it is not past its \<open>expires_at\<close>, that is, unless \<open>expires_at\<close>
  is a date strictly before now. If some reward is usable the state is Calculated (with
  a usable reward of the list); otherwise, if some reward is applied, it is Applied;
  otherwise it is NotEligible when the last local calculation returned
  \<open>eligible = false\<close>, and NotCalculated in every other case. In particular a list
  holding one applied reward gives Applied whatever the last calculation returned.
\<close>

theorem rewardStatus_precedence:
  "(\<forall>r. isRewardAvailable dt now r \<longleftrightarrow>
         reward_status r = PENDING \<and>
         \<not> (\<exists>e t. expires_at r = Some e \<and> e \<noteq> [] \<and> dt e = Some t \<and> t < now))
   \<and> ((\<exists>r\<in>set rewards. isRewardAvailable dt now r) \<longrightarrow>
      (\<exists>r\<in>set rewards. isRewardAvailable dt now r \<and>
         rewardStatus dt now False False (Some rewards) lastResult = Calculated r))
   \<and> (\<not> (\<exists>r\<in>set rewards. isRewardAvailable dt now r) \<and>
      (\<exists>r\<in>set rewards. reward_status r = APPLIED) \<longrightarrow>
        rewardStatus dt now False False (Some rewards) lastResult = Applied)
   \<and> (\<not> (\<exists>r\<in>set rewards. isRewardAvailable dt now r) \<and>
      \<not> (\<exists>r\<in>set rewards. reward_status r = APPLIED) \<longrightarrow>
        rewardStatus dt now False False (Some rewards) lastResult =
          (case lastResult of
             Some res \<Rightarrow> if eligible res then NotCalculated
                         else NotEligible (attendance_count res)
           | None \<Rightarrow> NotCalculated))
   \<and> (reward_status a = APPLIED \<longrightarrow>
        rewardStatus dt now False False (Some [a]) lastResult = Applied)"
proof (intro conjI impI allI)
  fix r
  show "isRewardAvailable dt now r \<longleftrightarrow>
         reward_status r = PENDING \<and>
         \<not> (\<exists>e t. expires_at r = Some e \<and> e \<noteq> [] \<and> dt e = Some t \<and> t < now)"
    by (rule isRewardAvailable_iff)
next
  assume "\<exists>r\<in>set rewards. isRewardAvailable dt now r"
  then obtain y ys where f: "filter (isRewardAvailable dt now) rewards = y # ys"
    and y: "y \<in> set rewards" "isRewardAvailable dt now y"
    using filter_nonempty_hd [of rewards "isRewardAvailable dt now"] by auto
  have "rewardStatus dt now False False (Some rewards) lastResult = Calculated y"
    by (simp add: rewardStatus_fetched f)
  with y show "\<exists>r\<in>set rewards. isRewardAvailable dt now r \<and>
         rewardStatus dt now False False (Some rewards) lastResult = Calculated r"
    by blast
next
  assume a: "\<not> (\<exists>r\<in>set rewards. isRewardAvailable dt now r) \<and>
      (\<exists>r\<in>set rewards. reward_status r = APPLIED)"
  then have f: "filter (isRewardAvailable dt now) rewards = []"
    by (simp add: filter_empty_conv)
  from a have g: "filter (\<lambda>r. reward_status r = APPLIED) rewards \<noteq> []"
    by (simp add: filter_empty_conv)
  show "rewardStatus dt now False False (Some rewards) lastResult = Applied"
    by (simp add: rewardStatus_fetched f g)
next
  assume a: "\<not> (\<exists>r\<in>set rewards. isRewardAvailable dt now r) \<and>
      \<not> (\<exists>r\<in>set rewards. reward_status r = APPLIED)"
  then have f: "filter (isRewardAvailable dt now) rewards = []"
    by (simp add: filter_empty_conv)
  from a have g: "filter (\<lambda>r. reward_status r = APPLIED) rewards = []"
    by (simp add: filter_empty_conv)
  show "rewardStatus dt now False False (Some rewards) lastResult =
          (case lastResult of
             Some res \<Rightarrow> if eligible res then NotCalculated
                         else NotEligible (attendance_count res)
           | None \<Rightarrow> NotCalculated)"
    by (simp add: rewardStatus_fetched f g)
next
  assume "reward_status a = APPLIED"
  then show "rewardStatus dt now False False (Some [a]) lastResult = Applied"
    by (simp add: rewardStatus_fetched isRewardAvailable_def)
qed

theorem rewardStatus_precedence_witness:
  "rewardStatus sample_Date_time 1705000000000 False False
     (Some [sample_reward \<lparr> reward_status := APPLIED \<rparr>])
     (Some \<lparr> eligible = True, attendance_count = Fin 25 \<rparr>) = Applied
   \<and> rewardStatus sample_Date_time 1705000000000 False False
     (Some [sample_reward \<lparr> reward_status := APPLIED \<rparr>,
            sample_reward \<lparr> expires_at := Some ''2024-01-31'' \<rparr>])
     None = Calculated (sample_reward \<lparr> expires_at := Some ''2024-01-31'' \<rparr>)
   \<and> rewardStatus sample_Date_time 1705000000000 False False
     (Some [sample_reward \<lparr> expires_at := Some ''2024-01-01'' \<rparr>,
            sample_reward \<lparr> reward_status := APPLIED \<rparr>])
     None = Applied
   \<and> rewardStatus sample_Date_time 1705000000000 False False
     (Some [sample_reward \<lparr> expires_at := Some ''2024-01-01'' \<rparr>])
     (Some \<lparr> eligible = False, attendance_count = Fin 12 \<rparr>) = NotEligible (Fin 12)"
proof -
  let ?applied = "sample_reward \<lparr> reward_status := APPLIED \<rparr>"
  let ?fresh = "sample_reward \<lparr> expires_at := Some ''2024-01-31'' \<rparr>"
  let ?stale = "sample_reward \<lparr> expires_at := Some ''2024-01-01'' \<rparr>"
  note t = rewardStatus_precedence[where dt = sample_Date_time and now = 1705000000000]
  have avail: "isRewardAvailable sample_Date_time 1705000000000 ?fresh"
    "\<not> isRewardAvailable sample_Date_time 1705000000000 ?stale"
    "\<not> isRewardAvailable sample_Date_time 1705000000000 ?applied"
    by (simp_all add: isRewardAvailable_def isRewardExpired_def sample_reward_def
          sample_Date_time_def)
  have c1: "rewardStatus sample_Date_time 1705000000000 False False (Some [?applied])
              (Some \<lparr> eligible = True, attendance_count = Fin 25 \<rparr>) = Applied"
    using t[of "[]" "Some \<lparr> eligible = True, attendance_count = Fin 25 \<rparr>" ?applied]
    by simp
  have "\<exists>r\<in>set [?applied, ?fresh]. isRewardAvailable sample_Date_time 1705000000000 r \<and>
          rewardStatus sample_Date_time 1705000000000 False False (Some [?applied, ?fresh]) None
            = Calculated r"
    using t[of "[?applied, ?fresh]" None ?applied] avail by simp
  with avail have c2: "rewardStatus sample_Date_time 1705000000000 False False
                         (Some [?applied, ?fresh]) None = Calculated ?fresh"
    by auto
  have c3: "rewardStatus sample_Date_time 1705000000000 False False
              (Some [?stale, ?applied]) None = Applied"
    using t[of "[?stale, ?applied]" None ?applied] avail by simp
  have c4: "rewardStatus sample_Date_time 1705000000000 False False (Some [?stale])
              (Some \<lparr> eligible = False, attendance_count = Fin 12 \<rparr>) = NotEligible (Fin 12)"
    using t[of "[?stale]" "Some \<lparr> eligible = False, attendance_count = Fin 12 \<rparr>" ?applied] avail
    by (simp add: sample_reward_def)
  from c1 c2 c3 c4 show ?thesis by simp
qed

subsection \<open>Renewal eligibility\<close>

text \<open>
  C4. An expired subscription is renewable whatever the days-remaining policy says; for
  an active one the check is the policy's own answer; a canceled, pending-payment or
  scheduled one is not renewable; and whenever the check says not renewable (also when
  there is no subscription) the confirm button is disabled.
\<close>

theorem renewalCheck_by_status:
  "(status sub = EXPIRED \<longrightarrow> canRenew (renewalCheck policy (Some sub)))
   \<and> (status sub = ACTIVE \<longrightarrow> renewalCheck policy (Some sub) = policy sub)
   \<and> (status sub = CANCELED \<or> status sub = PENDING_PAYMENT \<or> status sub = SCHEDULED \<longrightarrow>
        \<not> canRenew (renewalCheck policy (Some sub)))
   \<and> (\<not> canRenew (renewalCheck policy subscription) \<longrightarrow>
        confirm_disabled submitting loading (renewalCheck policy subscription))"
  by (simp add: renewalCheck_def confirm_disabled_def)

theorem renewalCheck_by_status_witness:
  "canRenew (renewalCheck (\<lambda>s. \<lparr> canRenew = False, daysRemaining = 10, message = Some ''wait'' \<rparr>)
              (Some sample_subscription))
   \<and> renewalCheck (\<lambda>s. \<lparr> canRenew = False, daysRemaining = 10, message = Some ''wait'' \<rparr>)
        (Some (sample_subscription \<lparr> status := ACTIVE \<rparr>)) =
       \<lparr> canRenew = False, daysRemaining = 10, message = Some ''wait'' \<rparr>
   \<and> \<not> canRenew (renewalCheck (\<lambda>s. \<lparr> canRenew = True, daysRemaining = 3, message = None \<rparr>)
                (Some (sample_subscription \<lparr> status := CANCELED \<rparr>)))
   \<and> confirm_disabled False False
        (renewalCheck (\<lambda>s. \<lparr> canRenew = True, daysRemaining = 3, message = None \<rparr>)
                (Some (sample_subscription \<lparr> status := CANCELED \<rparr>)))"
  using renewalCheck_by_status
          [of sample_subscription
              "\<lambda>s. \<lparr> canRenew = False, daysRemaining = 10, message = Some ''wait'' \<rparr>"
              "Some sample_subscription" False False]
        renewalCheck_by_status
          [of "sample_subscription \<lparr> status := ACTIVE \<rparr>"
              "\<lambda>s. \<lparr> canRenew = False, daysRemaining = 10, message = Some ''wait'' \<rparr>"
              "Some sample_subscription" False False]
        renewalCheck_by_status
          [of "sample_subscription \<lparr> status := CANCELED \<rparr>"
              "\<lambda>s. \<lparr> canRenew = True, daysRemaining = 3, message = None \<rparr>"
              "Some (sample_subscription \<lparr> status := CANCELED \<rparr>)" False False]
  by (simp add: sample_subscription_def)

subsection \<open>Attendances of a cycle\<close>

lemma in_cycle_iff:
  assumes "dt startDate = Some s" and "dt endDate = Some e"
  shows "in_cycle dt startDate endDate a \<longleftrightarrow>
           (\<exists>c. dt (check_in a) = Some c \<and> s \<le> c \<and> c \<le> e)"
  using assms by (cases "dt (check_in a)") (simp_all add: in_cycle_def)

text \<open>
  C6. When the two ends of the cycle are dates, with time values \<open>s\<close> and \<open>e\<close>, the
  count is the number of records whose \<open>check_in\<close> is a date with time value in the
  closed interval from \<open>s\<close> to \<open>e\<close>: a check-in at \<open>s\<close> or at \<open>e\<close> counts, one strictly
  before \<open>s\<close> or strictly after \<open>e\<close> does not.
\<close>

theorem calculateCycleAttendances_closed_interval:
  assumes "dt startDate = Some s" and "dt endDate = Some e"
  shows "calculateCycleAttendances dt (Some atts) startDate endDate =
           length (filter (\<lambda>a. \<exists>c. dt (check_in a) = Some c \<and> s \<le> c \<and> c \<le> e) atts)
         \<and> (s \<le> e \<and> dt (check_in a) = Some s \<longrightarrow>
              calculateCycleAttendances dt (Some [a]) startDate endDate = 1)
         \<and> (s \<le> e \<and> dt (check_in a) = Some e \<longrightarrow>
              calculateCycleAttendances dt (Some [a]) startDate endDate = 1)
         \<and> (dt (check_in a) = Some c \<and> (c < s \<or> e < c) \<longrightarrow>
              calculateCycleAttendances dt (Some [a]) startDate endDate = 0)"
proof -
  have eq: "in_cycle dt startDate endDate =
              (\<lambda>a. \<exists>c. dt (check_in a) = Some c \<and> s \<le> c \<and> c \<le> e)"
    by (rule ext) (rule in_cycle_iff[OF assms])
  have all: "calculateCycleAttendances dt (Some xs) startDate endDate =
           length (filter (\<lambda>a. \<exists>c. dt (check_in a) = Some c \<and> s \<le> c \<and> c \<le> e) xs)" for xs
    by (cases xs) (simp_all add: calculateCycleAttendances_def eq)
  show ?thesis
    by (auto simp: all)
qed

theorem calculateCycleAttendances_closed_interval_witness:
  "calculateCycleAttendances sample_Date_time
     (Some [\<lparr> check_in = ''2024-01-01'' \<rparr>, \<lparr> check_in = ''2024-01-31'' \<rparr>,
            \<lparr> check_in = ''2023-12-31T23:59:59Z'' \<rparr>, \<lparr> check_in = ''2024-01-15T10:00:00Z'' \<rparr>,
            \<lparr> check_in = ''2024-01-31T00:00:01Z'' \<rparr>])
     ''2024-01-01'' ''2024-01-31'' = 3
   \<and> calculateCycleAttendances sample_Date_time (Some [\<lparr> check_in = ''2024-01-01'' \<rparr>])
       ''2024-01-01'' ''2024-01-31'' = 1
   \<and> calculateCycleAttendances sample_Date_time (Some [\<lparr> check_in = ''2024-01-31'' \<rparr>])
       ''2024-01-01'' ''2024-01-31'' = 1
   \<and> calculateCycleAttendances sample_Date_time (Some [\<lparr> check_in = ''2023-12-31T23:59:59Z'' \<rparr>])
       ''2024-01-01'' ''2024-01-31'' = 0
   \<and> calculateCycleAttendances sample_Date_time (Some [\<lparr> check_in = ''2024-01-31T00:00:01Z'' \<rparr>])
       ''2024-01-01'' ''2024-01-31'' = 0"
proof -
  have s: "sample_Date_time ''2024-01-01'' = Some 1704067200000"
    and e: "sample_Date_time ''2024-01-31'' = Some 1706659200000"
    by (simp_all add: sample_Date_time_def)
  note t = calculateCycleAttendances_closed_interval
             [where dt = sample_Date_time and startDate = "''2024-01-01''"
                and endDate = "''2024-01-31''", OF s e]
  show ?thesis
    using t [of "[\<lparr> check_in = ''2024-01-01'' \<rparr>, \<lparr> check_in = ''2024-01-31'' \<rparr>,
            \<lparr> check_in = ''2023-12-31T23:59:59Z'' \<rparr>, \<lparr> check_in = ''2024-01-15T10:00:00Z'' \<rparr>,
            \<lparr> check_in = ''2024-01-31T00:00:01Z'' \<rparr>]" "\<lparr> check_in = ''2024-01-01'' \<rparr>" 0]
          t [of "[]" "\<lparr> check_in = ''2024-01-31'' \<rparr>" 0]
          t [of "[]" "\<lparr> check_in = ''2023-12-31T23:59:59Z'' \<rparr>" 1704067199000]
          t [of "[]" "\<lparr> check_in = ''2024-01-31T00:00:01Z'' \<rparr>" 1706659201000]
    by (simp add: sample_Date_time_def)
qed

subsection \<open>Plans that earn no reward\<close>

text \<open>
  C7. A plan is eligible exactly when its duration unit is an element of
  \<open>eligible_plan_units\<close> (equality of strings, so \<open>Month\<close> is not \<open>month\<close>). For a unit
  that is not, the progress is \<open>null\<close> and no reward can be calculated for renewal,
  whatever the attendances; so it is for \<open>week\<close> against the units \<open>[month]\<close>.
\<close>

theorem ineligible_plan_unit_not_applicable:
  "(isPlanEligibleForRewards u (Some config) \<longleftrightarrow> u \<in> set (eligible_plan_units config))
   \<and> (u \<notin> set (eligible_plan_units config) \<longrightarrow>
        progress dt config activeSub (Some \<lparr> plan_duration_unit = u \<rparr>) atts = None
        \<and> \<not> canCalculateRewardForRenewal
              (Some \<lparr> info_start_date = sd, info_end_date = ed,
                       plan = Some \<lparr> duration_unit = Some u \<rparr> \<rparr>) cnt (Some config))
   \<and> \<not> isPlanEligibleForRewards ''week'' (Some (config \<lparr> eligible_plan_units := [''month''] \<rparr>))
   \<and> progress dt (config \<lparr> eligible_plan_units := [''month''] \<rparr>) activeSub
         (Some \<lparr> plan_duration_unit = ''week'' \<rparr>) atts = None"
proof -
  have a: "isPlanEligibleForRewards v (Some c) \<longleftrightarrow> v \<in> set (eligible_plan_units c)" for v c
    by (simp add: isPlanEligibleForRewards_def)
  have b: "\<not> isPlanEligibleForRewards v (Some c) \<Longrightarrow>
             progress dt c activeSub (Some \<lparr> plan_duration_unit = v \<rparr>) atts = None" for v c
    by (cases activeSub; cases atts) (simp_all add: progress_def)
  have c: "\<not> isPlanEligibleForRewards u (Some config) \<Longrightarrow>
        \<not> canCalculateRewardForRenewal
              (Some \<lparr> info_start_date = sd, info_end_date = ed,
                       plan = Some \<lparr> duration_unit = Some u \<rparr> \<rparr>) cnt (Some config)"
    by (simp add: canCalculateRewardForRenewal_def)
  have d: "\<not> isPlanEligibleForRewards ''week'' (Some (config \<lparr> eligible_plan_units := [''month''] \<rparr>))"
    by (simp add: a)
  from a b c d show ?thesis by blast
qed

theorem ineligible_plan_unit_not_applicable_witness:
  "\<not> isPlanEligibleForRewards ''week'' (Some sample_config)
   \<and> \<not> isPlanEligibleForRewards ''Month'' (Some sample_config)
   \<and> progress sample_Date_time sample_config (Some sample_active)
        (Some \<lparr> plan_duration_unit = ''week'' \<rparr>)
        (Some (replicate 30 \<lparr> check_in = ''2024-01-15T10:00:00Z'' \<rparr>)) = None
   \<and> \<not> canCalculateRewardForRenewal
          (Some \<lparr> info_start_date = ''2024-01-01'', info_end_date = ''2024-01-31'',
                   plan = Some \<lparr> duration_unit = Some ''week'' \<rparr> \<rparr>) (Fin 30) (Some sample_config)"
  using ineligible_plan_unit_not_applicable
          [of "''week''" sample_config sample_Date_time "Some sample_active"
              "Some (replicate 30 \<lparr> check_in = ''2024-01-15T10:00:00Z'' \<rparr>)"
              "''2024-01-01''" "''2024-01-31''" "Fin 30"]
        ineligible_plan_unit_not_applicable
          [of "''Month''" sample_config sample_Date_time "Some sample_active"
              "Some (replicate 30 \<lparr> check_in = ''2024-01-15T10:00:00Z'' \<rparr>)"
              "''2024-01-01''" "''2024-01-31''" "Fin 30"]
  by (simp add: sample_config_def)

subsection \<open>The attendance threshold\<close>

lemma progress_SomeD:
  assumes "progress dt config activeSub pl atts = Some pr"
  obtains sub where "activeSub = Some sub"
    and "cycleAttendances pr =
           Fin (of_nat (calculateCycleAttendances dt atts (as_start_date sub) (as_end_date sub)))"
    and "threshold pr = attendance_threshold config"
    and "remaining pr = Math_max (Fin 0) (jsub (threshold pr) (cycleAttendances pr))"
    and "isComplete pr = jge (cycleAttendances pr) (threshold pr)"
proof (cases activeSub)
  case None
  with assms show ?thesis by (simp add: progress_def)
next
  case (Some sub)
  show ?thesis
  proof (rule that[OF Some])
    from assms Some have
      "pr = \<lparr> cycleAttendances = Fin (of_nat (calculateCycleAttendances dt atts
                                       (as_start_date sub) (as_end_date sub))),
               threshold = attendance_threshold config,
               progressPercentage =
                 Math_min (jmul (jdiv (Fin (of_nat (calculateCycleAttendances dt atts
                                       (as_start_date sub) (as_end_date sub))))
                                  (attendance_threshold config)) (Fin 100)) (Fin 100),
               remaining = Math_max (Fin 0) (jsub (attendance_threshold config)
                             (Fin (of_nat (calculateCycleAttendances dt atts
                                       (as_start_date sub) (as_end_date sub))))),
               isComplete = jge (Fin (of_nat (calculateCycleAttendances dt atts
                                       (as_start_date sub) (as_end_date sub))))
                              (attendance_threshold config),
               discountPercentage = discount_percentage config \<rparr>"
      by (cases pl; cases atts) (auto simp: progress_def Let_def split: if_splits)
    then show "cycleAttendances pr =
           Fin (of_nat (calculateCycleAttendances dt atts (as_start_date sub) (as_end_date sub)))"
      and "threshold pr = attendance_threshold config"
      and "remaining pr = Math_max (Fin 0) (jsub (threshold pr) (cycleAttendances pr))"
      and "isComplete pr = jge (cycleAttendances pr) (threshold pr)"
      by simp_all
  qed
qed

lemma remaining_exact:
  assumes "\<bar>k - int n\<bar> < 2 ^ 53"
  shows "Math_max (Fin 0) (jsub (Fin (of_int k)) (Fin (of_nat n))) = Fin (of_int (max 0 (k - int n)))"
proof -
  have "jsub (Fin (of_int k)) (Fin (of_nat n)) = fl (of_int (k - int n))"
    by (simp add: jsub_Fin)
  also have "\<dots> = Fin (of_int (k - int n))"
    using assms by (rule fl_of_int)
  finally show ?thesis
    by (simp add: Math_max_def max_def)
qed

text \<open>
  C5. Where a progress is shown, with \<open>n\<close> the count of the cycle: the cycle is complete
  exactly when \<open>n >= threshold\<close>, the remaining attendances are
  \<open>Math.max(0, threshold - n)\<close>, and for a subscription with an eligible plan
  \<open>canCalculateRewardForRenewal\<close> is the comparison \<open>count >= threshold\<close>; no operand is
  rounded. For a finite threshold \<open>t\<close> the comparison is the order of the numbers, so
  the cycle is complete at \<open>n = t\<close> and not at \<open>n = t - 1\<close>; the remaining attendances
  are \<open>0\<close> once \<open>t \<le> n\<close> and, for a whole-number threshold, the integer
  \<open>max 0 (t - n)\<close>.
\<close>

theorem attendance_threshold_comparison:
  assumes "progress dt config (Some sub) pl atts = Some pr"
  defines "n \<equiv> calculateCycleAttendances dt atts (as_start_date sub) (as_end_date sub)"
  shows "cycleAttendances pr = Fin (of_nat n)
       \<and> isComplete pr = jge (Fin (of_nat n)) (attendance_threshold config)
       \<and> remaining pr = Math_max (Fin 0) (jsub (attendance_threshold config) (Fin (of_nat n)))
       \<and> (\<forall>s u c. plan s = Some \<lparr> duration_unit = Some u \<rparr> \<and> u \<noteq> [] \<and>
              isPlanEligibleForRewards u (Some config) \<longrightarrow>
              canCalculateRewardForRenewal (Some s) c (Some config) =
                jge c (attendance_threshold config))
       \<and> (attendance_threshold config = Fin t \<longrightarrow>
            (\<forall>c. jge (Fin c) (Fin t) \<longleftrightarrow> t \<le> c)
            \<and> (isComplete pr \<longleftrightarrow> t \<le> of_nat n)
            \<and> (t = of_nat n \<longrightarrow> isComplete pr)
            \<and> (t - 1 = of_nat n \<longrightarrow> \<not> isComplete pr)
            \<and> (t \<le> of_nat n \<longrightarrow> remaining pr = Fin 0)
            \<and> (\<forall>k. t = of_int k \<and> \<bar>k - int n\<bar> < 2 ^ 53 \<longrightarrow>
                   remaining pr = Fin (of_int (max 0 (k - int n)))))"
proof -
  from assms(1) obtain sub' where
    "Some sub = Some sub'" and
    p: "cycleAttendances pr =
           Fin (of_nat (calculateCycleAttendances dt atts (as_start_date sub') (as_end_date sub')))"
       "threshold pr = attendance_threshold config"
       "remaining pr = Math_max (Fin 0) (jsub (threshold pr) (cycleAttendances pr))"
       "isComplete pr = jge (cycleAttendances pr) (threshold pr)"
    by (rule progress_SomeD)
  then have c: "cycleAttendances pr = Fin (of_nat n)" by (simp add: n_def)
  have g1: "isComplete pr = jge (Fin (of_nat n)) (attendance_threshold config)"
    by (simp add: p(2,4) c)
  have g2: "remaining pr = Math_max (Fin 0) (jsub (attendance_threshold config) (Fin (of_nat n)))"
    by (simp add: p(2,3) c)
  have g3: "\<forall>s u c. plan s = Some \<lparr> duration_unit = Some u \<rparr> \<and> u \<noteq> [] \<and>
              isPlanEligibleForRewards u (Some config) \<longrightarrow>
              canCalculateRewardForRenewal (Some s) c (Some config) =
                jge c (attendance_threshold config)"
    by (simp add: canCalculateRewardForRenewal_def)
  have fin: "attendance_threshold config = Fin t \<longrightarrow>
            (\<forall>c. jge (Fin c) (Fin t) \<longleftrightarrow> t \<le> c)
            \<and> (isComplete pr \<longleftrightarrow> t \<le> of_nat n)
            \<and> (t = of_nat n \<longrightarrow> isComplete pr)
            \<and> (t - 1 = of_nat n \<longrightarrow> \<not> isComplete pr)
            \<and> (t \<le> of_nat n \<longrightarrow> remaining pr = Fin 0)
            \<and> (\<forall>k. t = of_int k \<and> \<bar>k - int n\<bar> < 2 ^ 53 \<longrightarrow>
                   remaining pr = Fin (of_int (max 0 (k - int n))))"
  proof
    assume thr: "attendance_threshold config = Fin t"
    have j: "\<forall>c. jge (Fin c) (Fin t) \<longleftrightarrow> t \<le> c" by (simp add: jge_Fin)
    have i: "isComplete pr \<longleftrightarrow> t \<le> of_nat n" by (simp add: g1 thr jge_Fin)
    have r: "remaining pr = Math_max (Fin 0) (jsub (Fin t) (Fin (of_nat n)))"
      by (simp add: g2 thr)
    have r0: "t \<le> of_nat n \<longrightarrow> remaining pr = Fin 0"
    proof
      assume "t \<le> of_nat n"
      then have "t - of_nat n \<le> 0" by simp
      then have "Math_max (Fin 0) (fl (t - of_nat n)) = Fin 0" by (rule Math_max_zero_nonpos)
      then show "remaining pr = Fin 0" by (simp add: r jsub_Fin)
    qed
    have rk: "\<forall>k. t = of_int k \<and> \<bar>k - int n\<bar> < 2 ^ 53 \<longrightarrow>
                  remaining pr = Fin (of_int (max 0 (k - int n)))"
      using remaining_exact by (simp add: r)
    have b1: "t = of_nat n \<longrightarrow> isComplete pr" using i by simp
    have b2: "t - 1 = of_nat n \<longrightarrow> \<not> isComplete pr" using i by auto
    from j i b1 b2 r0 rk show "(\<forall>c. jge (Fin c) (Fin t) \<longleftrightarrow> t \<le> c)
            \<and> (isComplete pr \<longleftrightarrow> t \<le> of_nat n)
            \<and> (t = of_nat n \<longrightarrow> isComplete pr)
            \<and> (t - 1 = of_nat n \<longrightarrow> \<not> isComplete pr)
            \<and> (t \<le> of_nat n \<longrightarrow> remaining pr = Fin 0)
            \<and> (\<forall>k. t = of_int k \<and> \<bar>k - int n\<bar> < 2 ^ 53 \<longrightarrow>
                   remaining pr = Fin (of_int (max 0 (k - int n))))"
      by blast
  qed
  from c g1 g2 g3 fin show ?thesis by blast
qed

lemma count_replicate_in_cycle:
  "calculateCycleAttendances sample_Date_time
     (Some (replicate (Suc m) \<lparr> check_in = ''2024-01-15T10:00:00Z'' \<rparr>))
     (as_start_date sample_active) (as_end_date sample_active) = Suc m"
  by (simp add: calculateCycleAttendances_def in_cycle_def sample_Date_time_def sample_active_def)

theorem attendance_threshold_comparison_witness:
  "\<not> isComplete (the (progress sample_Date_time sample_config (Some sample_active)
        (Some \<lparr> plan_duration_unit = ''month'' \<rparr>)
        (Some (replicate 19 \<lparr> check_in = ''2024-01-15T10:00:00Z'' \<rparr>))))
   \<and> remaining (the (progress sample_Date_time sample_config (Some sample_active)
        (Some \<lparr> plan_duration_unit = ''month'' \<rparr>)
        (Some (replicate 19 \<lparr> check_in = ''2024-01-15T10:00:00Z'' \<rparr>)))) = Fin 1
   \<and> isComplete (the (progress sample_Date_time sample_config (Some sample_active)
        (Some \<lparr> plan_duration_unit = ''month'' \<rparr>)
        (Some (replicate 20 \<lparr> check_in = ''2024-01-15T10:00:00Z'' \<rparr>))))
   \<and> remaining (the (progress sample_Date_time sample_config (Some sample_active)
        (Some \<lparr> plan_duration_unit = ''month'' \<rparr>)
        (Some (replicate 20 \<lparr> check_in = ''2024-01-15T10:00:00Z'' \<rparr>)))) = Fin 0"
proof -
  let ?a = "\<lparr> check_in = ''2024-01-15T10:00:00Z'' \<rparr>"
  let ?run = "\<lambda>m. progress sample_Date_time sample_config (Some sample_active)
        (Some \<lparr> plan_duration_unit = ''month'' \<rparr>) (Some (replicate m ?a))"
  have some: "?run (Suc m) = Some (the (?run (Suc m)))" for m
    by (simp add: progress_def isPlanEligibleForRewards_def sample_config_def Let_def)
  have thr: "attendance_threshold sample_config = Fin 20"
    by (simp add: sample_config_def)
  have n19: "calculateCycleAttendances sample_Date_time (Some (replicate 19 ?a))
               (as_start_date sample_active) (as_end_date sample_active) = 19"
    using count_replicate_in_cycle[of 18] by simp
  have n20: "calculateCycleAttendances sample_Date_time (Some (replicate 20 ?a))
               (as_start_date sample_active) (as_end_date sample_active) = 20"
    using count_replicate_in_cycle[of 19] by simp
  have s19: "?run 19 = Some (the (?run 19))" using some[of 18] by simp
  have s20: "?run 20 = Some (the (?run 20))" using some[of 19] by simp
  note t19 = attendance_threshold_comparison[OF s19, where t = 20, unfolded n19]
  note t20 = attendance_threshold_comparison[OF s20, where t = 20, unfolded n20]
  from t19 thr have f19: "(isComplete (the (?run 19)) \<longleftrightarrow> (20::rat) \<le> of_nat 19)
      \<and> (\<forall>k. (20::rat) = of_int k \<and> \<bar>k - int 19\<bar> < 2 ^ 53 \<longrightarrow>
              remaining (the (?run 19)) = Fin (of_int (max 0 (k - int 19))))"
    by blast
  from f19 have a1: "\<not> isComplete (the (?run 19))" by simp
  from f19 have "\<forall>k. (20::rat) = of_int k \<and> \<bar>k - int 19\<bar> < 2 ^ 53 \<longrightarrow>
              remaining (the (?run 19)) = Fin (of_int (max 0 (k - int 19)))"
    by (elim conjE)
  from this[rule_format, of 20] have a2: "remaining (the (?run 19)) = Fin 1" by simp
  from t20 thr have f20: "(isComplete (the (?run 20)) \<longleftrightarrow> (20::rat) \<le> of_nat 20)
      \<and> ((20::rat) \<le> of_nat 20 \<longrightarrow> remaining (the (?run 20)) = Fin 0)"
    by blast
  from f20 have b1: "isComplete (the (?run 20))" by simp
  from f20 have b2: "remaining (the (?run 20)) = Fin 0" by simp
  from a1 a2 b1 b2 show ?thesis by simp
qed

subsection \<open>The confirmation handler\<close>

text \<open>
  What a run of the handler does, case by case.
\<close>

lemma close_and_finish_eq:
  "close_and_finish st =
     (st \<lparr> error_text := None, isSubmitting := False, selectedReward := None \<rparr>, [OnClose], Finished)"
  by (simp add: close_and_finish_def handleClose_def finally_block_def)

lemma handleConfirm_no_subscription:
  "handleConfirm pf oc ma None st = (st, [])"
  by (simp add: handleConfirm_def handleConfirm_begin_def)

lemma handleConfirm_renewal_rejected:
  assumes "oc (resolve_discount pf (selectedReward st)) = Rejected e"
  shows "handleConfirm pf oc ma (Some sub) st =
           (st \<lparr> error_text := Some (error_message e RENEWAL_FALLBACK_MESSAGE),
                 isSubmitting := False \<rparr>,
            [RenewalCall (resolve_discount pf (selectedReward st))])"
  using assms
  by (simp add: handleConfirm_def handleConfirm_begin_def handleConfirm_renewed_def
      finally_block_def Let_def)

lemma handleConfirm_renewed_apply:
  "handleConfirm_renewed (Some r) (Some d) (Resolved (Some sid)) st =
     (if sid \<noteq> [] then (st, [ApplyRewardCall (reward_id r) sid d], AwaitApply (reward_id r) sid d)
      else close_and_finish st)"
  by (simp add: handleConfirm_renewed_def)

lemma handleConfirm_renewed_no_apply:
  assumes "sel = None \<or> dp = None \<or> nid = None \<or> nid = Some []"
  shows "handleConfirm_renewed sel dp (Resolved nid) st = close_and_finish st"
  using assms
  by (cases sel; cases dp; cases nid) (auto simp: handleConfirm_renewed_def)

lemma handleConfirm_with_apply:
  assumes "selectedReward st = Some r"
    and "resolve_discount pf (Some r) = Some d"
    and "oc (Some d) = Resolved (Some sid)" and "sid \<noteq> []"
  shows "handleConfirm pf oc ma (Some sub) st =
           (st \<lparr> error_text := None, isSubmitting := False, selectedReward := None \<rparr>,
            [RenewalCall (Some d), ApplyRewardCall (reward_id r) sid d] @
            (case ma (reward_id r) sid d of
               Rejected e \<Rightarrow> [LoggerError (error_message e ''Error desconocido'')]
             | Resolved _ \<Rightarrow> []) @ [OnClose])"
  using assms
  by (cases "ma (reward_id r) sid d")
     (simp_all add: handleConfirm_def handleConfirm_begin_def handleConfirm_renewed_apply
        handleConfirm_applied_def close_and_finish_eq Let_def)

lemma handleConfirm_without_apply:
  assumes "oc (resolve_discount pf (selectedReward st)) = Resolved nid"
    and "selectedReward st = None \<or> resolve_discount pf (selectedReward st) = None
         \<or> nid = None \<or> nid = Some []"
  shows "handleConfirm pf oc ma (Some sub) st =
           (st \<lparr> error_text := None, isSubmitting := False, selectedReward := None \<rparr>,
            [RenewalCall (resolve_discount pf (selectedReward st)), OnClose])"
  using assms(1) handleConfirm_renewed_no_apply[OF assms(2)]
  by (simp add: handleConfirm_def handleConfirm_begin_def close_and_finish_eq Let_def)

lemma resolve_discount_Some_iff:
  "resolve_discount pf (Some r) = Some d \<longleftrightarrow>
     d \<noteq> NaN \<and> d = (case reward_discount_percentage r of JStr s \<Rightarrow> pf s | JNum n \<Rightarrow> n)"
  by (auto simp: resolve_discount_def isNaN_def Let_def)

lemma handleConfirm_begin_events:
  "fst (snd (handleConfirm_begin pf subscription st)) =
     (case subscription of None \<Rightarrow> []
      | Some sub \<Rightarrow> [RenewalCall (resolve_discount pf (selectedReward st))])"
  by (cases subscription) (simp_all add: handleConfirm_begin_def Let_def)

text \<open>
  C2. In a run of the handler an apply-reward call for reward \<open>rid\<close>, subscription
  \<open>sid\<close> and discount \<open>d\<close> is made exactly when there is a subscription, a reward with
  that id is selected, its discount percentage (parsed when it is a string) is the
  number \<open>d\<close> and not \<open>NaN\<close>, and the renewal call resolved with the non-empty id
  \<open>sid\<close>. When it is made, it comes right after the renewal call; and the piece of the
  handler that runs before the renewal call settles makes no apply-reward call.
\<close>

theorem apply_reward_only_after_renewal:
  assumes run: "handleConfirm pf oc ma subscription st = (st', evs)"
  shows "(ApplyRewardCall rid sid d \<in> set evs \<longleftrightarrow>
            subscription \<noteq> None \<and>
            (\<exists>r. selectedReward st = Some r \<and> rid = reward_id r \<and> d \<noteq> NaN \<and>
                 d = (case reward_discount_percentage r of JStr s \<Rightarrow> pf s | JNum n \<Rightarrow> n)) \<and>
            oc (Some d) = Resolved (Some sid) \<and> sid \<noteq> [])
       \<and> (ApplyRewardCall rid sid d \<in> set evs \<longrightarrow>
            (\<exists>rest. evs = RenewalCall (Some d) # ApplyRewardCall rid sid d # rest))
       \<and> ApplyRewardCall rid sid d \<notin> set (fst (snd (handleConfirm_begin pf subscription st)))"
proof -
  let ?rhs = "subscription \<noteq> None \<and>
            (\<exists>r. selectedReward st = Some r \<and> rid = reward_id r \<and> d \<noteq> NaN \<and>
                 d = (case reward_discount_percentage r of JStr s \<Rightarrow> pf s | JNum n \<Rightarrow> n)) \<and>
            oc (Some d) = Resolved (Some sid) \<and> sid \<noteq> []"
  let ?dp = "resolve_discount pf (selectedReward st)"
  have rhs_dp: "?rhs \<Longrightarrow> ?dp = Some d \<and> selectedReward st \<noteq> None"
    by (auto simp: resolve_discount_Some_iff)
  have third: "ApplyRewardCall rid sid d \<notin> set (fst (snd (handleConfirm_begin pf subscription st)))"
    by (cases subscription) (simp_all add: handleConfirm_begin_events)
  have main: "(ApplyRewardCall rid sid d \<in> set evs \<longleftrightarrow> ?rhs)
       \<and> (ApplyRewardCall rid sid d \<in> set evs \<longrightarrow>
            (\<exists>rest. evs = RenewalCall (Some d) # ApplyRewardCall rid sid d # rest))"
  proof (cases subscription)
    case None
    with run have "evs = []" by (simp add: handleConfirm_no_subscription)
    with None show ?thesis by simp
  next
    case (Some sub)
    show ?thesis
    proof (cases "oc ?dp")
      case (Rejected e)
      from run Some have evs: "evs = [RenewalCall ?dp]"
        by (simp add: handleConfirm_renewal_rejected[where oc=oc and pf=pf and st=st, OF Rejected])
      have "\<not> ?rhs" using rhs_dp Rejected by auto
      with evs show ?thesis by simp
    next
      case (Resolved nid)
      show ?thesis
      proof (cases "selectedReward st = None \<or> ?dp = None \<or> nid = None \<or> nid = Some []")
        case True
        from run Some have evs: "evs = [RenewalCall ?dp, OnClose]"
          by (simp add: handleConfirm_without_apply[where oc=oc and pf=pf and st=st, OF Resolved True])
        have "\<not> ?rhs" using rhs_dp Resolved True by auto
        with evs show ?thesis by simp
      next
        case False
        from False obtain r where sel: "selectedReward st = Some r" by auto
        from False obtain d0 where dp: "?dp = Some d0" by auto
        from False obtain sid0 where nid: "nid = Some sid0" by auto
        from False nid have ne: "sid0 \<noteq> []" by simp
        from dp sel have rd: "resolve_discount pf (Some r) = Some d0" by simp
        from Resolved dp nid have o: "oc (Some d0) = Resolved (Some sid0)" by simp
        from run Some have evs: "evs = [RenewalCall (Some d0), ApplyRewardCall (reward_id r) sid0 d0] @
            (case ma (reward_id r) sid0 d0 of
               Rejected e \<Rightarrow> [LoggerError (error_message e ''Error desconocido'')]
             | Resolved _ \<Rightarrow> []) @ [OnClose]"
          by (simp add: handleConfirm_with_apply[where oc=oc and pf=pf and st=st, OF sel rd o ne])
        have mem: "ApplyRewardCall rid sid d \<in> set evs \<longleftrightarrow>
                     rid = reward_id r \<and> sid = sid0 \<and> d = d0"
          unfolding evs by (cases "ma (reward_id r) sid0 d0") auto
        have rhs: "?rhs \<longleftrightarrow> rid = reward_id r \<and> sid = sid0 \<and> d = d0"
        proof
          assume a: ?rhs
          with rhs_dp dp have "d = d0" by simp
          with a o sel show "rid = reward_id r \<and> sid = sid0 \<and> d = d0" by auto
        next
          assume "rid = reward_id r \<and> sid = sid0 \<and> d = d0"
          with Some sel rd o ne show ?rhs
            by (auto simp: resolve_discount_Some_iff)
        qed
        have shape: "rid = reward_id r \<and> sid = sid0 \<and> d = d0 \<Longrightarrow>
                 \<exists>rest. evs = RenewalCall (Some d) # ApplyRewardCall rid sid d # rest"
          unfolding evs by simp
        from mem rhs shape show ?thesis by blast
      qed
    qed
  qed
  from main third show ?thesis by blast
qed

theorem apply_reward_only_after_renewal_witness:
  "ApplyRewardCall ''r1'' ''sub-2'' (Fin 20) \<in>
     set (snd (handleConfirm (\<lambda>s. NaN) (\<lambda>dp. Resolved (Some ''sub-2''))
                 (\<lambda>rid sid d. Resolved ()) (Some sample_subscription) sample_state))
   \<and> ApplyRewardCall ''r1'' ''sub-2'' (Fin 20) \<notin>
     set (snd (handleConfirm (\<lambda>s. NaN) (\<lambda>dp. Resolved None)
                 (\<lambda>rid sid d. Resolved ()) (Some sample_subscription) sample_state))
   \<and> ApplyRewardCall ''r1'' ''sub-2'' (Fin 20) \<notin>
     set (snd (handleConfirm (\<lambda>s. NaN) (\<lambda>dp. Resolved (Some ''sub-2''))
                 (\<lambda>rid sid d. Resolved ()) (Some sample_subscription)
                 (sample_state \<lparr> selectedReward := None \<rparr>)))
   \<and> ApplyRewardCall ''r1'' ''sub-2'' NaN \<notin>
     set (snd (handleConfirm (\<lambda>s. NaN) (\<lambda>dp. Resolved (Some ''sub-2''))
                 (\<lambda>rid sid d. Resolved ()) (Some sample_subscription)
                 (sample_state \<lparr> selectedReward :=
                    Some (sample_reward \<lparr> reward_discount_percentage := JStr ''abc'' \<rparr>) \<rparr>)))"
proof -
  have pair: "handleConfirm pf oc ma subscription st =
                (fst (handleConfirm pf oc ma subscription st),
                 snd (handleConfirm pf oc ma subscription st))" for pf oc ma subscription st
    by simp
  note t = apply_reward_only_after_renewal[OF pair]
  show ?thesis
    using t [of "''r1''" "''sub-2''" "Fin 20" "\<lambda>s. NaN" "\<lambda>dp. Resolved (Some ''sub-2'')"
               "\<lambda>rid sid d. Resolved ()" "Some sample_subscription" sample_state]
          t [of "''r1''" "''sub-2''" "Fin 20" "\<lambda>s. NaN" "\<lambda>dp. Resolved None"
               "\<lambda>rid sid d. Resolved ()" "Some sample_subscription" sample_state]
          t [of "''r1''" "''sub-2''" "Fin 20" "\<lambda>s. NaN" "\<lambda>dp. Resolved (Some ''sub-2'')"
               "\<lambda>rid sid d. Resolved ()" "Some sample_subscription"
               "sample_state \<lparr> selectedReward := None \<rparr>"]
          t [of "''r1''" "''sub-2''" NaN "\<lambda>s. NaN" "\<lambda>dp. Resolved (Some ''sub-2'')"
               "\<lambda>rid sid d. Resolved ()" "Some sample_subscription"
               "sample_state \<lparr> selectedReward :=
                    Some (sample_reward \<lparr> reward_discount_percentage := JStr ''abc'' \<rparr>) \<rparr>"]
    by (simp add: sample_state_def sample_reward_def)
qed

text \<open>
  C1. The renewal resolves with \<open>sub-2\<close> and the apply-reward call is rejected. The
  renewal is called once and nothing undoes it; the rejection is logged; but the
  warning the handler sets is cleared by \<open>handleClose\<close>, which the handler calls next:
  when the handler is done the error text is empty and the modal has been asked to
  close.
\<close>

theorem handleConfirm_reward_failure_clears_warning:
  "handleConfirm (\<lambda>s. NaN) (\<lambda>dp. Resolved (Some ''sub-2''))
       (\<lambda>rid sid d. Rejected (ErrorObject ''Network Error''))
       (Some sample_subscription) sample_state =
     (sample_state \<lparr> error_text := None, isSubmitting := False, selectedReward := None \<rparr>,
      [RenewalCall (Some (Fin 20)), ApplyRewardCall ''r1'' ''sub-2'' (Fin 20),
       LoggerError ''Network Error'', OnClose])
   \<and> error_text (fst (handleConfirm (\<lambda>s. NaN) (\<lambda>dp. Resolved (Some ''sub-2''))
       (\<lambda>rid sid d. Rejected (ErrorObject ''Network Error''))
       (Some sample_subscription) sample_state)) \<noteq> Some REWARD_MARKING_WARNING"
proof -
  have sel: "selectedReward sample_state = Some sample_reward"
    by (simp add: sample_state_def)
  have rd: "resolve_discount (\<lambda>s. NaN) (Some sample_reward) = Some (Fin 20)"
    by (simp add: resolve_discount_def sample_reward_def isNaN_def)
  have "handleConfirm (\<lambda>s. NaN) (\<lambda>dp. Resolved (Some ''sub-2''))
       (\<lambda>rid sid d. Rejected (ErrorObject ''Network Error''))
       (Some sample_subscription) sample_state =
     (sample_state \<lparr> error_text := None, isSubmitting := False, selectedReward := None \<rparr>,
      [RenewalCall (Some (Fin 20)), ApplyRewardCall ''r1'' ''sub-2'' (Fin 20),
       LoggerError ''Network Error'', OnClose])"
    by (simp add: handleConfirm_with_apply[where r = sample_reward and d = "Fin 20" and sid = "''sub-2''", OF sel rd]
          error_message_def)
       (simp add: sample_reward_def)
  then show ?thesis by simp
qed

text \<open>
  C9. While a renewal is in flight the submitting flag is set, the confirm control is
  disabled, and a click on it is a no-op: no second renewal call is sent. The handler
  sets the flag before its first \<open>await\<close>, whenever there is a subscription, and sends one
  renewal call; the flag stays set for as long as the handler waits for the apply-reward
  call. With the flag set the control is disabled, whatever the other two conditions of
  its \<open>disabled\<close> attribute, so a click then changes nothing and sends nothing; an enabled
  control has the flag clear and its click starts the handler. The handler itself does
  not test the flag: the disabled control is the guard. One run of the handler sends at
  most one renewal call.
\<close>

theorem submitting_disables_confirm:
  "(isSubmitting st \<longrightarrow> confirm_disabled (isSubmitting st) loading chk)
   \<and> (isSubmitting st \<longrightarrow>
        confirm_click pf loading chk subscription st = (st, [], Finished))
   \<and> (\<not> confirm_disabled (isSubmitting st) loading chk \<longrightarrow>
        \<not> isSubmitting st \<and>
        confirm_click pf loading chk subscription st = handleConfirm_begin pf subscription st)
   \<and> handleConfirm_begin pf None st = (st, [], Finished)
   \<and> handleConfirm_begin pf (Some sub) st =
       (st \<lparr> error_text := None, isSubmitting := True \<rparr>,
        [RenewalCall (resolve_discount pf (selectedReward st))],
        AwaitRenewal (selectedReward st) (resolve_discount pf (selectedReward st)))
   \<and> isSubmitting (fst (handleConfirm_begin pf (Some sub) st))
   \<and> confirm_disabled (isSubmitting (fst (handleConfirm_begin pf (Some sub) st))) loading chk
   \<and> confirm_click pf loading chk subscription (fst (handleConfirm_begin pf (Some sub) st)) =
       (fst (handleConfirm_begin pf (Some sub) st), [], Finished)
   \<and> (isSubmitting st \<and> snd (snd (handleConfirm_renewed sel dp outcome st)) \<noteq> Finished \<longrightarrow>
        isSubmitting (fst (handleConfirm_renewed sel dp outcome st)) \<and>
        confirm_click pf loading chk subscription (fst (handleConfirm_renewed sel dp outcome st)) =
          (fst (handleConfirm_renewed sel dp outcome st), [], Finished))
   \<and> length (filter (\<lambda>e. \<exists>dp. e = RenewalCall dp)
         (snd (handleConfirm pf oc ma subscription st))) \<le> 1"
proof -
  let ?dp = "resolve_discount pf (selectedReward st)"
  have a: "handleConfirm_begin pf (Some sub) st =
       (st \<lparr> error_text := None, isSubmitting := True \<rparr>,
        [RenewalCall ?dp], AwaitRenewal (selectedReward st) ?dp)"
    by (simp add: handleConfirm_begin_def Let_def)
  have b: "confirm_disabled (isSubmitting (fst (handleConfirm_begin pf (Some sub) st))) loading chk"
    by (simp add: a confirm_disabled_def)
  have b': "confirm_click pf loading chk subscription (fst (handleConfirm_begin pf (Some sub) st)) =
       (fst (handleConfirm_begin pf (Some sub) st), [], Finished)"
    using b by (simp add: confirm_click_def)
  have d: "isSubmitting st \<and> snd (snd (handleConfirm_renewed sel dp outcome st)) \<noteq> Finished \<longrightarrow>
        isSubmitting (fst (handleConfirm_renewed sel dp outcome st)) \<and>
        confirm_click pf loading chk subscription (fst (handleConfirm_renewed sel dp outcome st)) =
          (fst (handleConfirm_renewed sel dp outcome st), [], Finished)"
  proof
    assume h: "isSubmitting st \<and> snd (snd (handleConfirm_renewed sel dp outcome st)) \<noteq> Finished"
    then have "fst (handleConfirm_renewed sel dp outcome st) = st"
      by (auto simp: handleConfirm_renewed_def close_and_finish_eq
               split: settled.splits option.splits if_splits)
    with h show "isSubmitting (fst (handleConfirm_renewed sel dp outcome st)) \<and>
        confirm_click pf loading chk subscription (fst (handleConfirm_renewed sel dp outcome st)) =
          (fst (handleConfirm_renewed sel dp outcome st), [], Finished)"
      by (simp add: confirm_click_def confirm_disabled_def)
  qed
  have c: "length (filter (\<lambda>e. \<exists>dp. e = RenewalCall dp)
         (snd (handleConfirm pf oc ma subscription st))) \<le> 1"
  proof (cases subscription)
    case None
    then show ?thesis by (simp add: handleConfirm_no_subscription)
  next
    case (Some s)
    show ?thesis
    proof (cases "oc ?dp")
      case (Rejected e)
      show ?thesis
        by (simp add: Some handleConfirm_renewal_rejected[where oc=oc and pf=pf and st=st, OF Rejected])
    next
      case (Resolved nid)
      show ?thesis
      proof (cases "selectedReward st = None \<or> ?dp = None \<or> nid = None \<or> nid = Some []")
        case True
        show ?thesis
          by (simp add: Some handleConfirm_without_apply[where oc=oc and pf=pf and st=st, OF Resolved True])
      next
        case False
        from False obtain r where sel: "selectedReward st = Some r" by auto
        from False obtain d0 where dp: "?dp = Some d0" by auto
        from False obtain sid0 where nid: "nid = Some sid0" by auto
        from False nid have ne: "sid0 \<noteq> []" by simp
        from dp sel have rd: "resolve_discount pf (Some r) = Some d0" by simp
        from Resolved dp nid have o: "oc (Some d0) = Resolved (Some sid0)" by simp
        show ?thesis
          by (cases "ma (reward_id r) sid0 d0")
             (simp_all add: Some handleConfirm_with_apply[where oc=oc and pf=pf and st=st, OF sel rd o ne])
      qed
    qed
  qed
  have e: "isSubmitting st \<longrightarrow> confirm_disabled (isSubmitting st) loading chk"
    by (simp add: confirm_disabled_def)
  have f: "isSubmitting st \<longrightarrow>
        confirm_click pf loading chk subscription st = (st, [], Finished)"
    by (simp add: confirm_click_def confirm_disabled_def)
  have g: "\<not> confirm_disabled (isSubmitting st) loading chk \<longrightarrow>
        \<not> isSubmitting st \<and>
        confirm_click pf loading chk subscription st = handleConfirm_begin pf subscription st"
    by (simp add: confirm_click_def confirm_disabled_def)
  have n: "handleConfirm_begin pf None st = (st, [], Finished)"
    by (simp add: handleConfirm_begin_def)
  have s: "isSubmitting (fst (handleConfirm_begin pf (Some sub) st))"
    by (simp add: a)
  from e f g n a s b b' d c show ?thesis by (intro conjI)
qed

theorem submitting_disables_confirm_witness:
  "confirm_disabled (isSubmitting (sample_state \<lparr> isSubmitting := True \<rparr>)) False
     \<lparr> canRenew = True, daysRemaining = 0, message = None \<rparr>
   \<and> confirm_click (\<lambda>s. NaN) False \<lparr> canRenew = True, daysRemaining = 0, message = None \<rparr>
        (Some sample_subscription) (sample_state \<lparr> isSubmitting := True \<rparr>) =
       (sample_state \<lparr> isSubmitting := True \<rparr>, [], Finished)
   \<and> confirm_click (\<lambda>s. NaN) False \<lparr> canRenew = True, daysRemaining = 0, message = None \<rparr>
        (Some sample_subscription) sample_state =
       (sample_state \<lparr> isSubmitting := True \<rparr>, [RenewalCall (Some (Fin 20))],
        AwaitRenewal (Some sample_reward) (Some (Fin 20)))
   \<and> confirm_click (\<lambda>s. NaN) False \<lparr> canRenew = True, daysRemaining = 0, message = None \<rparr>
        (Some sample_subscription)
        (fst (handleConfirm_renewed (Some sample_reward) (Some (Fin 20)) (Resolved (Some ''sub-2''))
                (sample_state \<lparr> isSubmitting := True \<rparr>))) =
       (sample_state \<lparr> isSubmitting := True \<rparr>, [], Finished)
   \<and> length (filter (\<lambda>e. \<exists>dp. e = RenewalCall dp)
         (snd (handleConfirm (\<lambda>s. NaN) (\<lambda>dp. Resolved (Some ''sub-2''))
                 (\<lambda>rid sid d. Resolved ()) (Some sample_subscription) sample_state))) \<le> 1"
proof -
  let ?chk = "\<lparr> canRenew = True, daysRemaining = 0, message = None \<rparr>"
  let ?busy = "sample_state \<lparr> isSubmitting := True \<rparr>"
  note busy = submitting_disables_confirm
          [where st = ?busy and loading = False and chk = ?chk and pf = "\<lambda>s. NaN"
             and subscription = "Some sample_subscription" and sub = sample_subscription
             and sel = "Some sample_reward" and dp = "Some (Fin 20)"
             and outcome = "Resolved (Some ''sub-2'')"]
  note idle = submitting_disables_confirm
          [where st = sample_state and loading = False and chk = ?chk and pf = "\<lambda>s. NaN"
             and subscription = "Some sample_subscription" and sub = sample_subscription
             and oc = "\<lambda>dp. Resolved (Some ''sub-2'')" and ma = "\<lambda>rid sid d. Resolved ()"]
  have flag: "isSubmitting ?busy" by simp
  have enabled: "\<not> confirm_disabled (isSubmitting sample_state) False ?chk"
    by (simp add: confirm_disabled_def sample_state_def)
  have waiting: "snd (snd (handleConfirm_renewed (Some sample_reward) (Some (Fin 20))
                   (Resolved (Some ''sub-2'')) ?busy)) \<noteq> Finished"
    by (simp add: handleConfirm_renewed_def)
  have same: "fst (handleConfirm_renewed (Some sample_reward) (Some (Fin 20))
                   (Resolved (Some ''sub-2'')) ?busy) = ?busy"
    by (simp add: handleConfirm_renewed_def)
  have dp: "resolve_discount (\<lambda>s. NaN) (Some sample_reward) = Some (Fin 20)"
    by (simp add: resolve_discount_def sample_reward_def isNaN_def)
  have st: "sample_state \<lparr> error_text := None, isSubmitting := True \<rparr> = ?busy"
    by (simp add: sample_state_def)
  have sel: "selectedReward sample_state = Some sample_reward"
    by (simp add: sample_state_def)
  from busy flag have 1: "confirm_disabled (isSubmitting ?busy) False ?chk" by blast
  from busy flag have 2: "confirm_click (\<lambda>s. NaN) False ?chk (Some sample_subscription) ?busy =
       (?busy, [], Finished)" by blast
  from idle enabled have "confirm_click (\<lambda>s. NaN) False ?chk (Some sample_subscription) sample_state =
       handleConfirm_begin (\<lambda>s. NaN) (Some sample_subscription) sample_state" by blast
  moreover from idle have "handleConfirm_begin (\<lambda>s. NaN) (Some sample_subscription) sample_state =
       (sample_state \<lparr> error_text := None, isSubmitting := True \<rparr>,
        [RenewalCall (resolve_discount (\<lambda>s. NaN) (selectedReward sample_state))],
        AwaitRenewal (selectedReward sample_state)
          (resolve_discount (\<lambda>s. NaN) (selectedReward sample_state)))" by blast
  ultimately have 3: "confirm_click (\<lambda>s. NaN) False ?chk (Some sample_subscription) sample_state =
       (?busy, [RenewalCall (Some (Fin 20))], AwaitRenewal (Some sample_reward) (Some (Fin 20)))"
    by (simp only: sel dp st)
  from busy flag waiting have "confirm_click (\<lambda>s. NaN) False ?chk (Some sample_subscription)
        (fst (handleConfirm_renewed (Some sample_reward) (Some (Fin 20)) (Resolved (Some ''sub-2''))
                ?busy)) =
       (fst (handleConfirm_renewed (Some sample_reward) (Some (Fin 20)) (Resolved (Some ''sub-2''))
                ?busy), [], Finished)" by blast
  then have 4: "confirm_click (\<lambda>s. NaN) False ?chk (Some sample_subscription)
        (fst (handleConfirm_renewed (Some sample_reward) (Some (Fin 20)) (Resolved (Some ''sub-2''))
                ?busy)) = (?busy, [], Finished)" by (simp only: same)
  from idle have 5: "length (filter (\<lambda>e. \<exists>dp. e = RenewalCall dp)
         (snd (handleConfirm (\<lambda>s. NaN) (\<lambda>dp. Resolved (Some ''sub-2''))
                 (\<lambda>rid sid d. Resolved ()) (Some sample_subscription) sample_state))) \<le> 1" by blast
  from 1 2 3 4 5 show ?thesis by (intro conjI)
qed

subsection \<open>Cache calls after a cancellation\<close>

text \<open>
  C8. After a successful cancellation \<open>onSuccess\<close> makes five calls on the query client
  and no other: it sets the entry \<open>['subscriptions', 'detail', subscriptionId]\<close> to the
  returned record, invalidates the client's list \<open>['subscriptions', 'list', clientId]\<close>,
  invalidates the client's active subscription
  \<open>['subscriptions', 'list', clientId, 'active']\<close>, updates the client's list by replacing
  every entry with the subscription's id by the returned record (an absent list becomes
  the empty list), and invalidates the query \<open>['paymentStats', subscriptionId]\<close>.
\<close>

theorem cancel_onSuccess_cache_calls:
  "\<exists>upd. cancel_onSuccess data v =
            [ SetQueryData [''subscriptions'', ''detail'', var_subscriptionId v] data,
              InvalidateQueries [''subscriptions'', ''list'', var_clientId v],
              InvalidateQueries [''subscriptions'', ''list'', var_clientId v, ''active''],
              UpdateQueryData [''subscriptions'', ''list'', var_clientId v] upd,
              InvalidateQueries [''paymentStats'', var_subscriptionId v] ]
          \<and> upd None = []
          \<and> (\<forall>old. upd (Some old) =
                 map (\<lambda>s. if sub_id s = var_subscriptionId v then data else s) old)"
  by (simp add: cancel_onSuccess_def keys_detail_def keys_details_def keys_list_def
      keys_lists_def keys_active_def keys_all_def)

theorem cancel_onSuccess_cache_calls_witness:
  "\<exists>upd. cancel_onSuccess (sample_subscription \<lparr> status := CANCELED \<rparr>)
            \<lparr> var_clientId = ''c1'', var_subscriptionId = ''sub-1'' \<rparr> =
            [ SetQueryData [''subscriptions'', ''detail'', ''sub-1'']
                (sample_subscription \<lparr> status := CANCELED \<rparr>),
              InvalidateQueries [''subscriptions'', ''list'', ''c1''],
              InvalidateQueries [''subscriptions'', ''list'', ''c1'', ''active''],
              UpdateQueryData [''subscriptions'', ''list'', ''c1''] upd,
              InvalidateQueries [''paymentStats'', ''sub-1''] ]
          \<and> upd None = []
          \<and> upd (Some [sample_subscription \<lparr> sub_id := ''sub-0'' \<rparr>, sample_subscription]) =
              [sample_subscription \<lparr> sub_id := ''sub-0'' \<rparr>,
               sample_subscription \<lparr> status := CANCELED \<rparr>]"
proof -
  let ?data = "sample_subscription \<lparr> status := CANCELED \<rparr>"
  let ?v = "\<lparr> var_clientId = ''c1'', var_subscriptionId = ''sub-1'' \<rparr>"
  from cancel_onSuccess_cache_calls[of ?data ?v]
  obtain upd where calls: "cancel_onSuccess ?data ?v =
            [ SetQueryData [''subscriptions'', ''detail'', var_subscriptionId ?v] ?data,
              InvalidateQueries [''subscriptions'', ''list'', var_clientId ?v],
              InvalidateQueries [''subscriptions'', ''list'', var_clientId ?v, ''active''],
              UpdateQueryData [''subscriptions'', ''list'', var_clientId ?v] upd,
              InvalidateQueries [''paymentStats'', var_subscriptionId ?v] ]"
    and absent: "upd None = []"
    and present: "\<And>old. upd (Some old) =
                 map (\<lambda>s. if sub_id s = var_subscriptionId ?v then ?data else s) old"
    by (elim exE conjE) simp
  have "upd (Some [sample_subscription \<lparr> sub_id := ''sub-0'' \<rparr>, sample_subscription]) =
              [sample_subscription \<lparr> sub_id := ''sub-0'' \<rparr>, ?data]"
    by (simp add: present sample_subscription_def)
  with calls absent show ?thesis by (intro exI[of _ upd]) simp
qed

end
